theory Spec2Isabelle
  imports Complex_Main
begin

section \<open>Python values used by \<open>musicapp1/app.py\<close>\<close>

subsection \<open>Strings\<close>

text \<open>
  A Python \<open>str\<close> is a sequence of Unicode code points; \<open>strip\<close>, \<open>lstrip\<close> and
  \<open>rstrip\<close> work on code points. A string is therefore a list of code points, and \<open>u\<close>
  turns an ASCII literal into one. The non-ASCII literals of the source are written out as
  code points, each with the source line it comes from.
\<close>

type_synonym pystr = "nat list"

definition u :: "string \<Rightarrow> pystr" where
  "u s = map of_char s"

text \<open>Line 36: the placeholder used when \<open>gemini_client\<close> is \<open>None\<close>.\<close>

definition MSG_AI_NOT_STARTED :: pystr where
  "MSG_AI_NOT_STARTED = [0x41, 0x49, 0x20, 0x670D, 0x52D9, 0x672A, 0x555F, 0x52D5, 0x3002]"

text \<open>Line 71: the \<open>lyrics\<close> placeholder of the \<open>APIError\<close> handler, and the prefix that the
  same handler puts before the error text in \<open>artist_info\<close>.\<close>

definition MSG_API_FAILED :: pystr where
  "MSG_API_FAILED = [0x47, 0x65, 0x6D, 0x69, 0x6E, 0x69, 0x20, 0x41, 0x50, 0x49, 0x20,
     0x547C, 0x53EB, 0x5931, 0x6557, 0x3002]"

definition MSG_API_FAILED_DETAIL :: pystr where
  "MSG_API_FAILED_DETAIL = [0x47, 0x65, 0x6D, 0x69, 0x6E, 0x69, 0x20, 0x41, 0x50, 0x49, 0x20,
     0x547C, 0x53EB, 0x5931, 0x6557, 0x3002, 0x932F, 0x8AA4, 0xFF1A]"

text \<open>Line 74: the placeholder of the \<open>json.JSONDecodeError\<close> handler.\<close>

definition MSG_FORMAT_ERROR :: pystr where
  "MSG_FORMAT_ERROR = [0x41, 0x49, 0x20, 0x56DE, 0x50B3, 0x683C, 0x5F0F, 0x932F, 0x8AA4, 0x3002]"

text \<open>Line 77: the placeholder of the \<open>Exception\<close> handler.\<close>

definition MSG_UNKNOWN_ERROR :: pystr where
  "MSG_UNKNOWN_ERROR = [0x672A, 0x77E5, 0x932F, 0x8AA4, 0x3002]"

text \<open>Lines 70, 73 and 76: the fixed pieces of the three diagnostic messages that the
  handlers print, before \<open>{e}\<close>, \<open>{response.text}\<close> and \<open>{e}\<close>.\<close>

definition PRINT_API_ERROR :: pystr where
  "PRINT_API_ERROR = [0x47, 0x65, 0x6D, 0x69, 0x6E, 0x69, 0x20, 0x41, 0x50, 0x49, 0x20, 0x547C,
     0x53EB, 0x932F, 0x8AA4, 0x3A, 0x20]"

definition PRINT_UNPARSABLE :: pystr where
  "PRINT_UNPARSABLE = [0x7121, 0x6CD5, 0x89E3, 0x6790, 0x20, 0x47, 0x65, 0x6D, 0x69, 0x6E, 0x69,
     0x20, 0x56DE, 0x50B3, 0x7684, 0x20, 0x4A, 0x53, 0x4F, 0x4E, 0xFF1A]"

definition PRINT_UNKNOWN_ERROR :: pystr where
  "PRINT_UNKNOWN_ERROR = [0x47, 0x65, 0x6D, 0x69, 0x6E, 0x69, 0x20, 0x67E5, 0x8A62, 0x672A,
     0x77E5, 0x932F, 0x8AA4, 0x3A, 0x20]"

text \<open>Line 90: the message of the 400 response.\<close>

definition MSG_NO_FILE :: pystr where
  "MSG_NO_FILE = [0x672A, 0x627E, 0x5230, 0x97F3, 0x8A0A, 0x6A94, 0x6848, 0x3002]"

text \<open>Line 112: the default of \<open>error_info.get("error_message", ...)\<close>.\<close>

definition MSG_AUDD_UNKNOWN :: pystr where
  "MSG_AUDD_UNKNOWN = [0x41, 0x75, 0x64, 0x64, 0x2E, 0x69, 0x6F, 0x20, 0x56DE, 0x50B3, 0x4E86,
     0x672A, 0x77E5, 0x7684, 0x932F, 0x8AA4, 0x8A0A, 0x606F, 0x3002]"

text \<open>Line 115: the two fixed pieces of the f-string around the error code.\<close>

definition SERVICE_ERROR_OPEN :: pystr where
  "SERVICE_ERROR_OPEN = [0x670D, 0x52D9, 0x932F, 0x8AA4, 0x20, 0x28]"

definition SERVICE_ERROR_CLOSE :: pystr where
  "SERVICE_ERROR_CLOSE = [0x29, 0xFF1A]"

text \<open>Line 122: the no-match message.\<close>

definition MSG_NO_MATCH :: pystr where
  "MSG_NO_MATCH = [0x7121, 0x6CD5, 0x8FA8, 0x8B58, 0xFF1A, 0x6210, 0x529F, 0x9023, 0x7DDA,
     0x81F3, 0x20, 0x41, 0x75, 0x64, 0x64, 0x2E, 0x69, 0x6F, 0xFF0C, 0x4F46, 0x7121, 0x6CD5,
     0x5728, 0x8CC7, 0x6599, 0x5EAB, 0x4E2D, 0x627E, 0x5230, 0x5339, 0x914D, 0x7684, 0x97F3,
     0x6A02, 0x3002]"

text \<open>Lines 150 and 151: the defaults of \<open>gemini_data.get\<close>.\<close>

definition FALLBACK_LYRICS :: pystr where
  "FALLBACK_LYRICS = [0x672A, 0x80FD, 0x7372, 0x53D6, 0x6B4C, 0x8A5E, 0x3002]"

definition FALLBACK_ARTIST_INFO :: pystr where
  "FALLBACK_ARTIST_INFO = [0x672A, 0x80FD, 0x7372, 0x53D6, 0x6B4C, 0x624B, 0x7C21, 0x4ECB, 0x3002]"

text \<open>Lines 155 and 157: the prefixes of the two 500 messages.\<close>

definition HTTP_ERROR_PREFIX :: pystr where
  "HTTP_ERROR_PREFIX = [0x48, 0x54, 0x54, 0x50, 0x20, 0x9023, 0x7DDA, 0x932F, 0x8AA4, 0xFF1A]"

definition BACKEND_ERROR_PREFIX :: pystr where
  "BACKEND_ERROR_PREFIX = [0x5F8C, 0x7AEF, 0x672A, 0x77E5, 0x932F, 0x8AA4, 0xFF1A]"

text \<open>Lines 39 to 53: the four fixed pieces of the prompt f-string, around \<open>{title}\<close>,
  \<open>{artist}\<close> and \<open>{artist}\<close>.\<close>

definition PROMPT_0 :: pystr where
  "PROMPT_0 = [0xA, 0x20, 0x20, 0x20, 0x20, 0x8ACB, 0x91DD, 0x5C0D, 0x9019, 0x9996, 0x6B4C,
     0xFF1A, 0xA, 0x20, 0x20, 0x20, 0x20, 0x6B4C, 0x66F2, 0x540D, 0x7A31, 0x3A, 0x20, 0x22]"

definition PROMPT_1 :: pystr where
  "PROMPT_1 = [0x22, 0xA, 0x20, 0x20, 0x20, 0x20, 0x6B4C, 0x624B, 0x3A, 0x20, 0x22]"

definition PROMPT_2 :: pystr where
  "PROMPT_2 = [0x22, 0xA, 0x20, 0x20, 0x20, 0x20, 0xA, 0x20, 0x20, 0x20, 0x20, 0x57F7, 0x884C,
     0x4EE5, 0x4E0B, 0x5169, 0x500B, 0x4EFB, 0x52D9, 0xFF1A, 0xA, 0x20, 0x20, 0x20, 0x20, 0x31,
     0x2E, 0x20, 0x2A, 0x2A, 0x6B4C, 0x8A5E, 0x20, 0x28, 0x4C, 0x79, 0x72, 0x69, 0x63, 0x73,
     0x29, 0x2A, 0x2A, 0x3A, 0x20, 0x63D0, 0x4F9B, 0x9019, 0x9996, 0x6B4C, 0x7684, 0x5B8C,
     0x6574, 0x6B4C, 0x8A5E, 0x3002, 0x5982, 0x679C, 0x7121, 0x6CD5, 0x63D0, 0x4F9B, 0x5B8C,
     0x6574, 0x6B4C, 0x8A5E, 0xFF0C, 0x8ACB, 0x63D0, 0x4F9B, 0x81F3, 0x5C11, 0x5169, 0x6BB5,
     0xFF0C, 0x4E26, 0x8A3B, 0x660E, 0x300C, 0x90E8, 0x5206, 0x6B4C, 0x8A5E, 0x300D, 0x3002,
     0xA, 0x20, 0x20, 0x20, 0x20, 0x32, 0x2E, 0x20, 0x2A, 0x2A, 0x6B4C, 0x624B, 0x7C21, 0x4ECB,
     0x20, 0x28, 0x41, 0x72, 0x74, 0x69, 0x73, 0x74, 0x20, 0x49, 0x6E, 0x66, 0x6F, 0x29, 0x2A,
     0x2A, 0x3A, 0x20, 0x7C21, 0x8981, 0x4ECB, 0x7D39, 0x6B4C, 0x624B, 0x20, 0x22]"

definition PROMPT_3 :: pystr where
  "PROMPT_3 = [0x22, 0x20, 0x7684, 0x4E3B, 0x8981, 0x98A8, 0x683C, 0x3001, 0x91CD, 0x8981,
     0x6210, 0x5C31, 0xFF0C, 0x9577, 0x5EA6, 0x63A7, 0x5236, 0x5728, 0x20, 0x31, 0x30, 0x30,
     0x20, 0x5B57, 0x4EE5, 0x5167, 0x3002, 0xA, 0x20, 0x20, 0x20, 0x20, 0xA, 0x20, 0x20, 0x20,
     0x20, 0x8ACB, 0x4EE5, 0x4E00, 0x500B, 0x20, 0x4A, 0x53, 0x4F, 0x4E, 0x20, 0x683C, 0x5F0F,
     0x56DE, 0x50B3, 0x7D50, 0x679C, 0xFF0C, 0x78BA, 0x4FDD, 0x56DE, 0x50B3, 0x5167, 0x5BB9,
     0x662F, 0x7D14, 0x20, 0x4A, 0x53, 0x4F, 0x4E, 0xFF0C, 0x4E14, 0x53EF, 0x4EE5, 0x88AB, 0x20,
     0x50, 0x79, 0x74, 0x68, 0x6F, 0x6E, 0x20, 0x7684, 0x20, 0x6A, 0x73, 0x6F, 0x6E, 0x2E, 0x6C,
     0x6F, 0x61, 0x64, 0x73, 0x20, 0x51FD, 0x5F0F, 0x89E3, 0x6790, 0x3002, 0x683C, 0x5F0F,
     0x5982, 0x4E0B, 0xFF1A, 0xA, 0x20, 0x20, 0x20, 0x20, 0x7B, 0xA, 0x20, 0x20, 0x20, 0x20,
     0x20, 0x20, 0x22, 0x6C, 0x79, 0x72, 0x69, 0x63, 0x73, 0x22, 0x3A, 0x20, 0x22, 0x9019,
     0x88E1, 0x653E, 0x6B4C, 0x8A5E, 0x5167, 0x5BB9, 0x2E, 0x2E, 0x2E, 0x22, 0x2C, 0xA, 0x20,
     0x20, 0x20, 0x20, 0x20, 0x20, 0x22, 0x61, 0x72, 0x74, 0x69, 0x73, 0x74, 0x5F, 0x69, 0x6E,
     0x66, 0x6F, 0x22, 0x3A, 0x20, 0x22, 0x9019, 0x88E1, 0x653E, 0x6B4C, 0x624B, 0x7C21, 0x4ECB,
     0x2E, 0x2E, 0x2E, 0x22, 0xA, 0x20, 0x20, 0x20, 0x20, 0x7D, 0xA, 0x20, 0x20, 0x20, 0x20]"

text \<open>
  \<open>str.strip()\<close> removes the code points for which \<open>str.isspace\<close> holds;
  \<open>lstrip(chars)\<close> and \<open>rstrip(chars)\<close> remove, from one end, every code point that
  occurs in \<open>chars\<close>: the argument is a set of characters, not a prefix or suffix.
\<close>

definition py_isspace :: "nat \<Rightarrow> bool" where
  "py_isspace c = ((0x09 \<le> c \<and> c \<le> 0x0D) \<or> (0x1C \<le> c \<and> c \<le> 0x20) \<or> c = 0x85 \<or> c = 0xA0
     \<or> c = 0x1680 \<or> (0x2000 \<le> c \<and> c \<le> 0x200A) \<or> c = 0x2028 \<or> c = 0x2029 \<or> c = 0x202F
     \<or> c = 0x205F \<or> c = 0x3000)"

definition lstrip_chars :: "pystr \<Rightarrow> pystr \<Rightarrow> pystr" where
  "lstrip_chars chars s = dropWhile (\<lambda>c. c \<in> set chars) s"

definition rstrip_chars :: "pystr \<Rightarrow> pystr \<Rightarrow> pystr" where
  "rstrip_chars chars s = rev (dropWhile (\<lambda>c. c \<in> set chars) (rev s))"

definition strip :: "pystr \<Rightarrow> pystr" where
  "strip s = rev (dropWhile py_isspace (rev (dropWhile py_isspace s)))"

text \<open>\<open>str(n)\<close> of a Python \<open>int\<close>: decimal digits, with a minus sign below zero.\<close>

fun str_nat :: "nat \<Rightarrow> pystr" where
  "str_nat n = (if n < 10 then [0x30 + n] else str_nat (n div 10) @ [0x30 + n mod 10])"

declare str_nat.simps [simp del]

definition str_int :: "int \<Rightarrow> pystr" where
  "str_int i = (if i < 0 then 0x2D # str_nat (nat (- i)) else str_nat (nat i))"

subsection \<open>Decoded JSON\<close>

text \<open>
  What \<open>json.loads\<close> and \<open>response.json()\<close> produce: \<open>None\<close>, \<open>bool\<close>, \<open>int\<close>, \<open>float\<close>,
  \<open>str\<close>, \<open>list\<close> and \<open>dict\<close> with string keys. A \<open>dict\<close> is a list of pairs with distinct
  keys in insertion order. A \<open>float\<close> is kept as the real number it stands for, or as one of
  \<open>inf\<close>, \<open>-inf\<close>, \<open>nan\<close>; the rounding of IEEE doubles is not modelled (the code observes of a
  float only whether it is zero).
\<close>

datatype pyfloat = Finite real | PosInf | NegInf | NaN

datatype json =
    JNull
  | JBool bool
  | JInt int
  | JFloat pyfloat
  | JStr pystr
  | JList "json list"
  | JDict "(pystr \<times> json) list"

text \<open>\<open>d[k] = v\<close> on a \<open>dict\<close>: an existing key keeps its position.\<close>

fun dict_set :: "pystr \<Rightarrow> json \<Rightarrow> (pystr \<times> json) list \<Rightarrow> (pystr \<times> json) list" where
  "dict_set k v [] = [(k, v)]"
| "dict_set k v (p # ps) = (if fst p = k then (k, v) # ps else p # dict_set k v ps)"

text \<open>Truth value of a decoded JSON value (\<open>if x:\<close>, \<open>not x\<close>).\<close>

fun py_truthy :: "json \<Rightarrow> bool" where
  "py_truthy JNull = False"
| "py_truthy (JBool b) = b"
| "py_truthy (JInt i) = (i \<noteq> 0)"
| "py_truthy (JFloat f) = (f \<noteq> Finite 0)"
| "py_truthy (JStr s) = (s \<noteq> [])"
| "py_truthy (JList xs) = (xs \<noteq> [])"
| "py_truthy (JDict d) = (d \<noteq> [])"

fun type_name :: "json \<Rightarrow> pystr" where
  "type_name JNull = u ''NoneType''"
| "type_name (JBool b) = u ''bool''"
| "type_name (JInt i) = u ''int''"
| "type_name (JFloat f) = u ''float''"
| "type_name (JStr s) = u ''str''"
| "type_name (JList xs) = u ''list''"
| "type_name (JDict d) = u ''dict''"

text \<open>
  \<open>str(x)\<close> as an f-string applies it to a decoded JSON value. The text of a \<open>float\<close>, a
  \<open>list\<close> or a \<open>dict\<close> is the interpreter's \<open>repr\<close>, which is not modelled: it is taken as
  the parameter \<open>rp\<close>.
\<close>

fun py_str :: "(json \<Rightarrow> pystr) \<Rightarrow> json \<Rightarrow> pystr" where
  "py_str rp JNull = u ''None''"
| "py_str rp (JBool b) = (if b then u ''True'' else u ''False'')"
| "py_str rp (JInt i) = str_int i"
| "py_str rp (JStr s) = s"
| "py_str rp v = rp v"

subsection \<open>Exceptions\<close>

text \<open>
  The exception classes that the handlers of the source tell apart, and the ones the
  interpreter raises on the operations the source performs. Every value carries the text
  that \<open>str(e)\<close> gives, and \<open>HTTPError\<close> also the status code of \<open>e.response\<close>.
  \<open>OtherException\<close> stands for any other subclass of \<open>Exception\<close> that a library call may
  raise (a connection failure, a timeout, ...).
\<close>

datatype exn =
    HTTPError nat pystr
  | APIError pystr
  | JSONDecodeError pystr
  | UnboundLocalError pystr
  | AttributeError pystr
  | KeyError pystr
  | TypeError pystr
  | RecursionError pystr
  | UnicodeEncodeError pystr
  | OtherException pystr

fun str_exn :: "exn \<Rightarrow> pystr" where
  "str_exn (HTTPError c m) = m"
| "str_exn (APIError m) = m"
| "str_exn (JSONDecodeError m) = m"
| "str_exn (UnboundLocalError m) = m"
| "str_exn (AttributeError m) = m"
| "str_exn (KeyError m) = m"
| "str_exn (TypeError m) = m"
| "str_exn (RecursionError m) = m"
| "str_exn (UnicodeEncodeError m) = m"
| "str_exn (OtherException m) = m"

fun is_HTTPError :: "exn \<Rightarrow> bool" where
  "is_HTTPError (HTTPError c m) = True"
| "is_HTTPError e = False"

fun is_APIError :: "exn \<Rightarrow> bool" where
  "is_APIError (APIError m) = True"
| "is_APIError e = False"

fun is_JSONDecodeError :: "exn \<Rightarrow> bool" where
  "is_JSONDecodeError (JSONDecodeError m) = True"
| "is_JSONDecodeError e = False"

text \<open>
  \<open>x.get(key, default)\<close>: a \<open>dict\<close> method; on any other decoded value the attribute lookup
  raises \<open>AttributeError\<close>. \<open>x.get(key)\<close> is \<open>py_get x key JNull\<close>.
\<close>

definition quoted :: "pystr \<Rightarrow> pystr" where
  "quoted s = 0x27 # s @ [0x27]"

fun py_get :: "json \<Rightarrow> pystr \<Rightarrow> json \<Rightarrow> exn + json" where
  "py_get (JDict d) k dflt = Inr (case map_of d k of None \<Rightarrow> dflt | Some v \<Rightarrow> v)"
| "py_get x k dflt =
     Inl (AttributeError (quoted (type_name x) @ u '' object has no attribute '' @ quoted (u ''get'')))"

text \<open>
  \<open>x[key]\<close> with a string key. On a \<open>dict\<close> a missing key raises \<open>KeyError\<close>, whose text is
  the \<open>repr\<close> of the key (the key between single quotes, for the plain ASCII keys of the
  source); on any other decoded value it raises \<open>TypeError\<close> (texts as CPython 3.11 words
  them).
\<close>

fun py_getitem :: "json \<Rightarrow> pystr \<Rightarrow> exn + json" where
  "py_getitem (JDict d) k = (case map_of d k of None \<Rightarrow> Inl (KeyError (quoted k)) | Some v \<Rightarrow> Inr v)"
| "py_getitem (JStr s) k =
     Inl (TypeError (u ''string indices must be integers, not '' @ quoted (u ''str'')))"
| "py_getitem (JList xs) k =
     Inl (TypeError (u ''list indices must be integers or slices, not str''))"
| "py_getitem x k = Inl (TypeError (quoted (type_name x) @ u '' object is not subscriptable''))"

section \<open>The JSON decoder \<open>json.loads\<close>\<close>

text \<open>
  \<open>json.loads\<close> belongs to the Python standard library. It is modelled after the decoder of
  CPython (\<open>json/decoder.py\<close>, \<open>json/scanner.py\<close>) with its default options: the grammar of
  RFC 8259, extended by \<open>NaN\<close>, \<open>Infinity\<close> and \<open>-Infinity\<close>; only space, tab, line feed and
  carriage return count as whitespace; control characters inside strings are refused; a
  repeated key keeps its first position and its last value.
\<close>

definition json_ws :: "nat \<Rightarrow> bool" where
  "json_ws c = (c = 0x20 \<or> c = 0x09 \<or> c = 0x0A \<or> c = 0x0D)"

definition skip_ws :: "pystr \<Rightarrow> pystr" where
  "skip_ws s = dropWhile json_ws s"

definition is_digit :: "nat \<Rightarrow> bool" where
  "is_digit c = (0x30 \<le> c \<and> c \<le> 0x39)"

definition hex_digit :: "nat \<Rightarrow> nat option" where
  "hex_digit c =
     (if 0x30 \<le> c \<and> c \<le> 0x39 then Some (c - 0x30)
      else if 0x41 \<le> c \<and> c \<le> 0x46 then Some (c - 0x41 + 10)
      else if 0x61 \<le> c \<and> c \<le> 0x66 then Some (c - 0x61 + 10)
      else None)"

text \<open>\<open>_decode_uXXXX\<close>: exactly four hexadecimal digits.\<close>

definition decode_uXXXX :: "nat \<Rightarrow> nat \<Rightarrow> nat \<Rightarrow> nat \<Rightarrow> nat option" where
  "decode_uXXXX a b c d =
     (case (hex_digit a, hex_digit b, hex_digit c, hex_digit d) of
        (Some w, Some x, Some y, Some z) \<Rightarrow> Some (((w * 16 + x) * 16 + y) * 16 + z)
      | _ \<Rightarrow> None)"

text \<open>The table \<open>BACKSLASH\<close> of one-letter escapes.\<close>

definition backslash :: "nat \<Rightarrow> nat option" where
  "backslash e =
     (if e = 0x22 then Some 0x22
      else if e = 0x5C then Some 0x5C
      else if e = 0x2F then Some 0x2F
      else if e = 0x62 then Some 0x08
      else if e = 0x66 then Some 0x0C
      else if e = 0x6E then Some 0x0A
      else if e = 0x72 then Some 0x0D
      else if e = 0x74 then Some 0x09
      else None)"

text \<open>
  One escape sequence, read just after the backslash: the code point it stands for and the
  number of characters it takes after the backslash, or \<open>None\<close> where CPython raises
  \<open>JSONDecodeError\<close>. A high surrogate escape followed by a low surrogate escape is joined
  into one code point.
\<close>

definition hex4 :: "pystr \<Rightarrow> nat option" where
  "hex4 s = (case s of h1 # h2 # h3 # h4 # rest \<Rightarrow> decode_uXXXX h1 h2 h3 h4 | _ \<Rightarrow> None)"

definition scan_escape :: "pystr \<Rightarrow> (nat \<times> nat) option" where
  "scan_escape s =
     (case s of
        [] \<Rightarrow> None
      | e # es \<Rightarrow>
          if e \<noteq> 0x75 then
            (case backslash e of None \<Rightarrow> None | Some ch \<Rightarrow> Some (ch, 1))
          else
            (case hex4 es of
               None \<Rightarrow> None
             | Some uni \<Rightarrow>
                 if 0xD800 \<le> uni \<and> uni \<le> 0xDBFF \<and> take 2 (drop 4 es) = [0x5C, 0x75] then
                   (case hex4 (drop 6 es) of
                      None \<Rightarrow> None
                    | Some uni2 \<Rightarrow>
                        if 0xDC00 \<le> uni2 \<and> uni2 \<le> 0xDFFF
                        then Some (0x10000 + (uni - 0xD800) * 0x400 + (uni2 - 0xDC00), 11)
                        else Some (uni, 5))
                 else Some (uni, 5)))"

text \<open>
  \<open>scanstring\<close>, called just after the opening quote: the decoded string and what follows
  the closing quote, or \<open>None\<close> where CPython raises \<open>JSONDecodeError\<close> (unterminated string,
  control character, bad escape).
\<close>

fun scanstring :: "pystr \<Rightarrow> pystr \<Rightarrow> (pystr \<times> pystr) option" where
  "scanstring acc [] = None"
| "scanstring acc (c # cs) =
     (if c = 0x22 then Some (acc, cs)
      else if c = 0x5C then
        (case scan_escape cs of
           None \<Rightarrow> None
         | Some (ch, k) \<Rightarrow> scanstring (acc @ [ch]) (drop k cs))
      else if c < 0x20 then None
      else scanstring (acc @ [c]) cs)"

text \<open>
  \<open>NUMBER_RE\<close>: an optional minus sign, \<open>0\<close> or a digit string without leading zero, an
  optional fraction and an optional exponent. Without fraction and exponent the number is an
  \<open>int\<close>, otherwise a \<open>float\<close>.
\<close>

definition nat_of_digits :: "pystr \<Rightarrow> nat" where
  "nat_of_digits ds = foldl (\<lambda>a c. 10 * a + (c - 0x30)) 0 ds"

definition scan_int_part :: "pystr \<Rightarrow> (pystr \<times> pystr) option" where
  "scan_int_part s =
     (case s of
        [] \<Rightarrow> None
      | d # ds \<Rightarrow>
          if d = 0x30 then Some ([d], ds)
          else if 0x31 \<le> d \<and> d \<le> 0x39 then Some (takeWhile is_digit s, dropWhile is_digit s)
          else None)"

definition scan_frac :: "pystr \<Rightarrow> pystr \<times> pystr" where
  "scan_frac s =
     (case s of
        [] \<Rightarrow> ([], s)
      | c # cs \<Rightarrow>
          if c = 0x2E \<and> takeWhile is_digit cs \<noteq> []
          then (takeWhile is_digit cs, dropWhile is_digit cs)
          else ([], s))"

definition scan_exp :: "pystr \<Rightarrow> (bool \<times> pystr) option \<times> pystr" where
  "scan_exp s =
     (case s of
        [] \<Rightarrow> (None, s)
      | c # cs \<Rightarrow>
          if c = 0x65 \<or> c = 0x45 then
            (let (neg, ds) =
               (case cs of
                  [] \<Rightarrow> (False, cs)
                | sg # rest \<Rightarrow>
                    if sg = 0x2D then (True, rest)
                    else if sg = 0x2B then (False, rest)
                    else (False, cs))
             in if takeWhile is_digit ds \<noteq> []
                then (Some (neg, takeWhile is_digit ds), dropWhile is_digit ds)
                else (None, s))
          else (None, s))"

definition dec_value :: "bool \<Rightarrow> pystr \<Rightarrow> pystr \<Rightarrow> (bool \<times> pystr) option \<Rightarrow> real" where
  "dec_value neg ip fr ex =
     (if neg then - 1 else 1) * (real (nat_of_digits (ip @ fr)) / 10 ^ length fr)
       * (case ex of
            None \<Rightarrow> 1
          | Some (eneg, ed) \<Rightarrow>
              if eneg then 1 / 10 ^ nat_of_digits ed else 10 ^ nat_of_digits ed)"

definition match_number :: "pystr \<Rightarrow> (json \<times> pystr) option" where
  "match_number s =
     (let (neg, s1) =
        (case s of [] \<Rightarrow> (False, s) | c # cs \<Rightarrow> if c = 0x2D then (True, cs) else (False, s))
      in case scan_int_part s1 of
           None \<Rightarrow> None
         | Some (ip, s2) \<Rightarrow>
             (let (fr, s3) = scan_frac s2; (ex, s4) = scan_exp s3
              in if fr = [] \<and> ex = None
                 then Some (JInt (if neg then - int (nat_of_digits ip) else int (nat_of_digits ip)), s4)
                 else Some (JFloat (Finite (dec_value neg ip fr ex)), s4)))"

text \<open>The scalars that \<open>_scan_once\<close> recognises by their first characters.\<close>

definition scan_scalar :: "pystr \<Rightarrow> (json \<times> pystr) option" where
  "scan_scalar s =
     (if take 4 s = u ''null'' then Some (JNull, drop 4 s)
      else if take 4 s = u ''true'' then Some (JBool True, drop 4 s)
      else if take 5 s = u ''false'' then Some (JBool False, drop 5 s)
      else case match_number s of
             Some r \<Rightarrow> Some r
           | None \<Rightarrow>
               if take 3 s = u ''NaN'' then Some (JFloat NaN, drop 3 s)
               else if take 8 s = u ''Infinity'' then Some (JFloat PosInf, drop 8 s)
               else if take 9 s = u ''-Infinity'' then Some (JFloat NegInf, drop 9 s)
               else None)"

text \<open>
  The recursive descent of \<open>_scan_once\<close>, \<open>JSONArray\<close> and \<open>JSONObject\<close>. The first argument
  bounds the number of nested calls; \<open>scan_items\<close> is the loop of \<open>JSONArray\<close> from its first
  element on, \<open>scan_pairs\<close> the loop of \<open>JSONObject\<close> from just after the opening quote of a
  key.
\<close>

datatype scan = Scanned json pystr | Malformed | Exhausted

fun scan_once :: "nat \<Rightarrow> pystr \<Rightarrow> scan"
  and scan_items :: "nat \<Rightarrow> json list \<Rightarrow> pystr \<Rightarrow> scan"
  and scan_pairs :: "nat \<Rightarrow> (pystr \<times> json) list \<Rightarrow> pystr \<Rightarrow> scan" where
  "scan_once 0 s = Exhausted"
| "scan_once (Suc n) [] = Malformed"
| "scan_once (Suc n) (c # cs) =
     (if c = 0x22 then
        (case scanstring [] cs of
           None \<Rightarrow> Malformed
         | Some (str, rest) \<Rightarrow> Scanned (JStr str) rest)
      else if c = 0x7B then
        (case skip_ws cs of
           [] \<Rightarrow> Malformed
         | d # ds \<Rightarrow>
             if d = 0x7D then Scanned (JDict []) ds
             else if d = 0x22 then scan_pairs n [] ds
             else Malformed)
      else if c = 0x5B then
        (case skip_ws cs of
           [] \<Rightarrow> Malformed
         | d # ds \<Rightarrow>
             if d = 0x5D then Scanned (JList []) ds
             else scan_items n [] (d # ds))
      else
        (case scan_scalar (c # cs) of
           None \<Rightarrow> Malformed
         | Some (v, rest) \<Rightarrow> Scanned v rest))"
| "scan_items 0 acc s = Exhausted"
| "scan_items (Suc n) acc s =
     (case scan_once n s of
        Scanned v rest \<Rightarrow>
          (case skip_ws rest of
             [] \<Rightarrow> Malformed
           | d # ds \<Rightarrow>
               if d = 0x5D then Scanned (JList (acc @ [v])) ds
               else if d = 0x2C then scan_items n (acc @ [v]) (skip_ws ds)
               else Malformed)
      | Malformed \<Rightarrow> Malformed
      | Exhausted \<Rightarrow> Exhausted)"
| "scan_pairs 0 acc s = Exhausted"
| "scan_pairs (Suc n) acc s =
     (case scanstring [] s of
        None \<Rightarrow> Malformed
      | Some (key, rest) \<Rightarrow>
          (case skip_ws rest of
             [] \<Rightarrow> Malformed
           | d # ds \<Rightarrow>
               if d \<noteq> 0x3A then Malformed
               else
                 (case scan_once n (skip_ws ds) of
                    Scanned v rest2 \<Rightarrow>
                      (case skip_ws rest2 of
                         [] \<Rightarrow> Malformed
                       | e # es \<Rightarrow>
                           if e = 0x7D then Scanned (JDict (dict_set key v acc)) es
                           else if e = 0x2C then
                             (case skip_ws es of
                                [] \<Rightarrow> Malformed
                              | q # qs \<Rightarrow>
                                  if q = 0x22 then scan_pairs n (dict_set key v acc) qs
                                  else Malformed)
                           else Malformed)
                  | Malformed \<Rightarrow> Malformed
                  | Exhausted \<Rightarrow> Exhausted)))"

text \<open>
  \<open>json.loads(s)\<close>: leading whitespace, one value, trailing whitespace, nothing else. A
  malformed document raises \<open>JSONDecodeError\<close>; its text is not modelled (left empty), since
  the one handler of the source that catches it does not read it. Running out of nested calls
  is CPython's \<open>RecursionError\<close>; the bound given here, two calls for each character, is
  never reached (lemma \<open>json_loads_not_exhausted\<close> below), so the depth limit of the
  interpreter itself is not modelled, nor is its limit on the number of digits of an \<open>int\<close>.
\<close>

definition json_loads :: "pystr \<Rightarrow> exn + json" where
  "json_loads s =
     (case scan_once (Suc (length s + length s)) (skip_ws s) of
        Scanned v rest \<Rightarrow> if skip_ws rest = [] then Inr v else Inl (JSONDecodeError [])
      | Malformed \<Rightarrow> Inl (JSONDecodeError [])
      | Exhausted \<Rightarrow> Inl (RecursionError []))"

section \<open>The environment of the handler\<close>

text \<open>
  The handler talks to two services and reads two module-level globals. What they do is
  not code of the repository; it is the input of the model.

  \<^item> \<open>gemini_client\<close> (lines 25 to 29) is \<open>None\<close> when \<open>genai.Client\<close> raised at start-up,
    otherwise a client. A client is given by what \<open>models.generate_content(model, contents)\<close>
    does: it raises, or it returns a response whose \<open>text\<close> is a string or \<open>None\<close>.
  \<^item> \<open>requests.post\<close> raises, or returns a response with a status code, a reason, a URL and
    the outcome of \<open>response.json()\<close> (the decoded body, or an exception).
  \<^item> \<open>py_repr\<close> is the interpreter's \<open>repr\<close> of floats, lists and dicts (see \<open>py_str\<close>).
  \<^item> \<open>stdout_rejects\<close> tells what \<open>print\<close> does with a string: \<open>None\<close> when standard output
    can encode and take it, otherwise the text of the \<open>UnicodeEncodeError\<close> that \<open>print\<close>
    raises (a lone surrogate under UTF-8, any non-ASCII character under an ASCII stream).
\<close>

datatype gen_outcome = GenRaises exn | GenReturns "pystr option"

record http_reply =
  status_code :: nat
  reason :: pystr
  reply_url :: pystr
  json_result :: "exn + json"

datatype post_outcome = PostRaises exn | PostReturns http_reply

text \<open>An uploaded file (werkzeug's \<open>FileStorage\<close>) and the request's \<open>files\<close> multi-dict.\<close>

record upload =
  filename :: "pystr option"
  content :: "nat list"
  mimetype :: pystr

record flask_request =
  request_files :: "(pystr \<times> upload) list"

text \<open>The arguments of \<open>requests.post(url, data=data, files=files)\<close>.\<close>

record post_request =
  url :: pystr
  data :: "(pystr \<times> pystr) list"
  files :: "(pystr \<times> pystr option \<times> nat list \<times> pystr) list"

record env =
  AUDDIO_API_KEY :: pystr
  gemini_client :: "(pystr \<Rightarrow> pystr \<Rightarrow> gen_outcome) option"
  requests_post :: "post_request \<Rightarrow> post_outcome"
  py_repr :: "json \<Rightarrow> pystr"
  stdout_rejects :: "pystr \<Rightarrow> pystr option"

text \<open>The outbound calls a request makes, in order, with their arguments.\<close>

datatype call = AuddPost post_request | GeminiGenerate pystr pystr

text \<open>Sequencing of statements that may raise.\<close>

definition try_bind :: "exn + 'a \<Rightarrow> ('a \<Rightarrow> exn + 'b) \<Rightarrow> exn + 'b" where
  "try_bind m f = (case m of Inl e \<Rightarrow> Inl e | Inr x \<Rightarrow> f x)"

text \<open>\<open>Response.raise_for_status()\<close> of \<open>requests\<close>: \<open>HTTPError\<close> for 4xx and 5xx.\<close>

definition raise_for_status :: "http_reply \<Rightarrow> exn + unit" where
  "raise_for_status r =
     (if 400 \<le> status_code r \<and> status_code r < 500 then
        Inl (HTTPError (status_code r)
          (str_nat (status_code r) @ u '' Client Error: '' @ reason r @ u '' for url: '' @ reply_url r))
      else if 500 \<le> status_code r \<and> status_code r < 600 then
        Inl (HTTPError (status_code r)
          (str_nat (status_code r) @ u '' Server Error: '' @ reason r @ u '' for url: '' @ reply_url r))
      else Inr ())"

section \<open>\<open>get_song_info_from_gemini\<close> (lines 33 to 77)\<close>

definition prompt :: "(json \<Rightarrow> pystr) \<Rightarrow> json \<Rightarrow> json \<Rightarrow> pystr" where
  "prompt rp title artist =
     PROMPT_0 @ py_str rp title @ PROMPT_1 @ py_str rp artist @ PROMPT_2 @ py_str rp artist @ PROMPT_3"

definition enrichment :: "pystr \<Rightarrow> pystr \<Rightarrow> json" where
  "enrichment l a = JDict [(u ''lyrics'', JStr l), (u ''artist_info'', JStr a)]"

text \<open>Line 65: \<open>response.text.strip().lstrip('```json').rstrip('```')\<close>.\<close>

definition cleaned_text :: "pystr \<Rightarrow> pystr" where
  "cleaned_text text = rstrip_chars (u ''```'') (lstrip_chars (u ''```json'') (strip text))"

text \<open>\<open>print(text)\<close>: writes the text, or raises when standard output rejects it.\<close>

definition py_print :: "env \<Rightarrow> pystr \<Rightarrow> exn + unit" where
  "py_print ev text =
     (case stdout_rejects ev text of None \<Rightarrow> Inr () | Some m \<Rightarrow> Inl (UnicodeEncodeError m))"

text \<open>
  The body of the \<open>try\<close> (lines 56 to 67). The statement \<open>import json\<close> at line 63 is inside
  the function, so \<open>json\<close> is a local name of \<open>get_song_info_from_gemini\<close>, bound only once
  that line has run. The first component tells whether it has: it has not when
  \<open>generate_content\<close> raised. The second component is \<open>response.text\<close>, for the handler that
  prints it.
\<close>

definition gemini_try ::
  "(pystr \<Rightarrow> pystr \<Rightarrow> gen_outcome) \<Rightarrow> pystr \<Rightarrow> bool \<times> pystr option \<times> (exn + json)" where
  "gemini_try generate_content p =
     (case generate_content (u ''gemini-2.5-flash'') p of
        GenRaises e \<Rightarrow> (False, None, Inl e)
      | GenReturns None \<Rightarrow>
          (True, None, Inl (AttributeError
             (quoted (u ''NoneType'') @ u '' object has no attribute '' @ quoted (u ''strip''))))
      | GenReturns (Some text) \<Rightarrow> (True, Some text, json_loads (cleaned_text text)))"

text \<open>
  The \<open>except\<close> clauses (lines 69 to 77), tried in order. The second clause evaluates the
  expression \<open>json.JSONDecodeError\<close>; when the local \<open>json\<close> is unbound this raises
  \<open>UnboundLocalError\<close> (text as CPython 3.11 words it), which leaves the function: an
  exception raised while a clause is matched is not handled by the later clauses of the
  same \<open>try\<close>. Each handler first prints a diagnostic message (lines 70, 73 and 76); an
  exception raised by \<open>print\<close> leaves the function as well.
\<close>

definition UNBOUND_JSON :: pystr where
  "UNBOUND_JSON = u ''cannot access local variable '' @ quoted (u ''json'')
     @ u '' where it is not associated with a value''"

definition gemini_except :: "env \<Rightarrow> bool \<Rightarrow> pystr option \<Rightarrow> exn \<Rightarrow> exn + json" where
  "gemini_except ev json_bound response_text e =
     (if is_APIError e then
        try_bind (py_print ev (PRINT_API_ERROR @ str_exn e)) (\<lambda>_.
          Inr (enrichment MSG_API_FAILED (MSG_API_FAILED_DETAIL @ str_exn e)))
      else if \<not> json_bound then Inl (UnboundLocalError UNBOUND_JSON)
      else if is_JSONDecodeError e then
        try_bind (py_print ev (PRINT_UNPARSABLE
                    @ (case response_text of None \<Rightarrow> u ''None'' | Some text \<Rightarrow> text))) (\<lambda>_.
          Inr (enrichment MSG_FORMAT_ERROR MSG_FORMAT_ERROR))
      else
        try_bind (py_print ev (PRINT_UNKNOWN_ERROR @ str_exn e)) (\<lambda>_.
          Inr (enrichment MSG_UNKNOWN_ERROR MSG_UNKNOWN_ERROR)))"

definition get_song_info_from_gemini :: "env \<Rightarrow> json \<Rightarrow> json \<Rightarrow> (exn + json) \<times> call list" where
  "get_song_info_from_gemini ev title artist =
     (case gemini_client ev of
        None \<Rightarrow> (Inr (enrichment MSG_AI_NOT_STARTED MSG_AI_NOT_STARTED), [])
      | Some generate_content \<Rightarrow>
          (let p = prompt (py_repr ev) title artist
           in ((case gemini_try generate_content p of
                  (json_bound, response_text, Inr v) \<Rightarrow> Inr v
                | (json_bound, response_text, Inl e) \<Rightarrow>
                    gemini_except ev json_bound response_text e),
               [GeminiGenerate (u ''gemini-2.5-flash'') p])))"

section \<open>\<open>recognize_endpoint\<close> (lines 85 to 157)\<close>

type_synonym flask_response = "json \<times> nat"

definition error_payload :: "pystr \<Rightarrow> json" where
  "error_payload m = JDict [(u ''status'', JStr (u ''error'')), (u ''message'', JStr m)]"

definition fail_payload :: "pystr \<Rightarrow> json" where
  "fail_payload m = JDict [(u ''status'', JStr (u ''fail'')), (u ''message'', JStr m)]"

text \<open>Lines 110 to 116: the branch taken when \<open>result.get("status") == "error"\<close>.\<close>

definition service_error_response :: "(json \<Rightarrow> pystr) \<Rightarrow> json \<Rightarrow> exn + flask_response" where
  "service_error_response rp result =
     try_bind (py_get result (u ''error'') (JDict [])) (\<lambda>error_info.
     try_bind (py_get error_info (u ''error_message'') (JStr MSG_AUDD_UNKNOWN)) (\<lambda>error_message.
     try_bind (py_get error_info (u ''error_code'') (JStr (u ''N/A''))) (\<lambda>error_code.
       Inr (fail_payload (SERVICE_ERROR_OPEN @ py_str rp error_code @ SERVICE_ERROR_CLOSE
              @ py_str rp error_message), 200))))"

text \<open>
  Lines 133 to 141. \<open>subscript_path v [k1, k2]\<close> is \<open>v[k1][k2]\<close>; \<open>add_link\<close> is one of the four
  \<open>if r.get(field): links[name] = r[field]...\<close> statements.
\<close>

fun subscript_path :: "json \<Rightarrow> pystr list \<Rightarrow> exn + json" where
  "subscript_path v [] = Inr v"
| "subscript_path v (k # ks) = try_bind (py_getitem v k) (\<lambda>w. subscript_path w ks)"

definition add_link ::
  "json \<Rightarrow> pystr \<Rightarrow> pystr list \<Rightarrow> pystr \<Rightarrow> (pystr \<times> json) list \<Rightarrow> exn + (pystr \<times> json) list" where
  "add_link r field path name links =
     try_bind (py_get r field JNull) (\<lambda>x.
       if py_truthy x
       then try_bind (subscript_path r (field # path)) (\<lambda>v. Inr (dict_set name v links))
       else Inr links)"

definition extract_links :: "json \<Rightarrow> exn + (pystr \<times> json) list" where
  "extract_links r =
     try_bind (add_link r (u ''spotify'') [u ''external_urls'', u ''spotify''] (u ''Spotify'') [])
       (\<lambda>links.
     try_bind (add_link r (u ''youtube'') [u ''url''] (u ''YouTube Music'') links) (\<lambda>links.
     try_bind (add_link r (u ''apple_music'') [u ''url''] (u ''Apple Music'') links) (\<lambda>links.
     add_link r (u ''deezer'') [u ''link''] (u ''Deezer'') links)))"

text \<open>Lines 132 to 152: what follows the call of \<open>get_song_info_from_gemini\<close>.\<close>

definition success_payload ::
  "json \<Rightarrow> json \<Rightarrow> json \<Rightarrow> (pystr \<times> json) list \<Rightarrow> json \<Rightarrow> json \<Rightarrow> json" where
  "success_payload title artist album links lyrics artist_info =
     JDict [(u ''status'', JStr (u ''success'')),
            (u ''title'', title),
            (u ''artist'', artist),
            (u ''album'', album),
            (u ''links'', JDict links),
            (u ''lyrics'', lyrics),
            (u ''artist_info'', artist_info)]"

definition success_response :: "json \<Rightarrow> json \<Rightarrow> json \<Rightarrow> json \<Rightarrow> exn + flask_response" where
  "success_response r title artist gemini_data =
     try_bind (extract_links r) (\<lambda>links.
     try_bind (py_get r (u ''album'') JNull) (\<lambda>album.
     try_bind (py_get gemini_data (u ''lyrics'') (JStr FALLBACK_LYRICS)) (\<lambda>lyrics.
     try_bind (py_get gemini_data (u ''artist_info'') (JStr FALLBACK_ARTIST_INFO)) (\<lambda>artist_info.
       Inr (success_payload title artist album links lyrics artist_info, 200)))))"

text \<open>Lines 125 to 152: the match record, the enrichment, the payload.\<close>

definition handle_match :: "env \<Rightarrow> json \<Rightarrow> (exn + flask_response) \<times> call list" where
  "handle_match ev result =
     (case py_getitem result (u ''result'') of
        Inl e \<Rightarrow> (Inl e, [])
      | Inr r \<Rightarrow>
          (case py_get r (u ''title'') JNull of
             Inl e \<Rightarrow> (Inl e, [])
           | Inr title \<Rightarrow>
               (case py_get r (u ''artist'') JNull of
                  Inl e \<Rightarrow> (Inl e, [])
                | Inr artist \<Rightarrow>
                    (let (gemini_data, calls) = get_song_info_from_gemini ev title artist
                     in (try_bind gemini_data (success_response r title artist), calls)))))"

text \<open>Lines 110 to 152: everything after \<open>result = response.json()\<close>.\<close>

definition handle_result :: "env \<Rightarrow> json \<Rightarrow> (exn + flask_response) \<times> call list" where
  "handle_result ev result =
     (case py_get result (u ''status'') JNull of
        Inl e \<Rightarrow> (Inl e, [])
      | Inr status \<Rightarrow>
          if status = JStr (u ''error'') then (service_error_response (py_repr ev) result, [])
          else
            (case py_get result (u ''result'') JNull of
               Inl e \<Rightarrow> (Inl e, [])
             | Inr m \<Rightarrow>
                 if \<not> py_truthy m then (Inr (fail_payload MSG_NO_MATCH, 200), [])
                 else handle_match ev result))"

text \<open>Lines 92 to 152: the request to the fingerprinting service and the \<open>try\<close> body.\<close>

definition audd_request :: "env \<Rightarrow> upload \<Rightarrow> post_request" where
  "audd_request ev audio_file =
     \<lparr>url = u ''https://api.audd.io/'',
      data = [(u ''api_token'', AUDDIO_API_KEY ev),
              (u ''return'', u ''spotify,apple_music,youtube,deezer'')],
      files = [(u ''file'', (filename audio_file, content audio_file, mimetype audio_file))]\<rparr>"

definition recognize_try :: "env \<Rightarrow> upload \<Rightarrow> (exn + flask_response) \<times> call list" where
  "recognize_try ev audio_file =
     (let rq = audd_request ev audio_file
      in case requests_post ev rq of
           PostRaises e \<Rightarrow> (Inl e, [AuddPost rq])
         | PostReturns response \<Rightarrow>
             (case raise_for_status response of
                Inl e \<Rightarrow> (Inl e, [AuddPost rq])
              | Inr _ \<Rightarrow>
                  (case json_result response of
                     Inl e \<Rightarrow> (Inl e, [AuddPost rq])
                   | Inr result \<Rightarrow>
                       (let (outcome, calls) = handle_result ev result
                        in (outcome, AuddPost rq # calls)))))"

text \<open>Lines 154 to 157: the two handlers of the endpoint's \<open>try\<close>.\<close>

definition recognize_except :: "exn \<Rightarrow> flask_response" where
  "recognize_except e =
     (case e of
        HTTPError code m \<Rightarrow> (error_payload (HTTP_ERROR_PREFIX @ str_nat code), 500)
      | _ \<Rightarrow> (error_payload (BACKEND_ERROR_PREFIX @ str_exn e), 500))"

text \<open>The endpoint: its JSON payload, its HTTP status, and the outbound calls it made.\<close>

definition recognize_endpoint :: "env \<Rightarrow> flask_request \<Rightarrow> flask_response \<times> call list" where
  "recognize_endpoint ev request =
     (case map_of (request_files request) (u ''audio_file'') of
        None \<Rightarrow> ((error_payload MSG_NO_FILE, 400), [])
      | Some audio_file \<Rightarrow>
          (case recognize_try ev audio_file of
             (Inr response, calls) \<Rightarrow> (response, calls)
           | (Inl e, calls) \<Rightarrow> (recognize_except e, calls)))"

section \<open>Vocabulary of the properties\<close>

text \<open>\<open>d.get(k)\<close> on the pairs of a \<open>dict\<close>.\<close>

definition get_or_null :: "(pystr \<times> json) list \<Rightarrow> pystr \<Rightarrow> json" where
  "get_or_null d k = (case map_of d k of None \<Rightarrow> JNull | Some v \<Rightarrow> v)"


text \<open>
  The request carries the form field \<open>audio_file\<close>, the POST to the fingerprinting service
  came back without an HTTP error status, and \<open>response.json()\<close> gave \<open>result\<close>.
\<close>

definition audd_returns :: "env \<Rightarrow> flask_request \<Rightarrow> json \<Rightarrow> bool" where
  "audd_returns ev request result =
     (case map_of (request_files request) (u ''audio_file'') of
        None \<Rightarrow> False
      | Some audio_file \<Rightarrow>
          (case requests_post ev (audd_request ev audio_file) of
             PostRaises e \<Rightarrow> False
           | PostReturns response \<Rightarrow>
               raise_for_status response = Inr () \<and> json_result response = Inr result))"

text \<open>
  The decoded body is an object without the error marker whose \<open>result\<close> entry is the
  truthy value \<open>r\<close>: the match record of line 125.
\<close>

fun match_record :: "json \<Rightarrow> json \<Rightarrow> bool" where
  "match_record (JDict d) r =
     (map_of d (u ''status'') \<noteq> Some (JStr (u ''error'')) \<and> map_of d (u ''result'') = Some r
        \<and> py_truthy r)"
| "match_record x r = False"

text \<open>The four platforms of lines 134 to 141: field of the match record, path below it,
  name in \<open>links\<close>.\<close>

definition PLATFORM_LINKS :: "(pystr \<times> pystr list \<times> pystr) list" where
  "PLATFORM_LINKS =
     [(u ''spotify'', [u ''external_urls'', u ''spotify''], u ''Spotify''),
      (u ''youtube'', [u ''url''], u ''YouTube Music''),
      (u ''apple_music'', [u ''url''], u ''Apple Music''),
      (u ''deezer'', [u ''link''], u ''Deezer'')]"

text \<open>The endpoint answers with the success payload of lines 143 to 152 for the match
  record \<open>r\<close>, with the given links, lyrics and artist information, and HTTP 200.\<close>

definition answers_success ::
  "env \<Rightarrow> flask_request \<Rightarrow> (pystr \<times> json) list \<Rightarrow> (pystr \<times> json) list \<Rightarrow> json \<Rightarrow> json \<Rightarrow> bool" where
  "answers_success ev request r links lyrics artist_info =
     (fst (recognize_endpoint ev request) =
        (JDict [(u ''status'', JStr (u ''success'')),
                (u ''title'', get_or_null r (u ''title'')),
                (u ''artist'', get_or_null r (u ''artist'')),
                (u ''album'', get_or_null r (u ''album'')),
                (u ''links'', JDict links),
                (u ''lyrics'', lyrics),
                (u ''artist_info'', artist_info)], 200))"

section \<open>Example inputs\<close>

definition example_upload :: upload where
  "example_upload = \<lparr>filename = Some (u ''clip.mp3''), content = [0x49, 0x44, 0x33],
     mimetype = u ''audio/mpeg''\<rparr>"

definition example_request :: flask_request where
  "example_request = \<lparr>request_files = [(u ''audio_file'', example_upload)]\<rparr>"

text \<open>A request whose only file field has another name.\<close>

definition other_field_request :: flask_request where
  "other_field_request = \<lparr>request_files = [(u ''file'', example_upload)]\<rparr>"

definition example_env :: "(pystr \<Rightarrow> pystr \<Rightarrow> gen_outcome) option \<Rightarrow> post_outcome \<Rightarrow> env" where
  "example_env client outcome =
     \<lparr>AUDDIO_API_KEY = u ''test-token'', gemini_client = client,
      requests_post = (\<lambda>rq. outcome), py_repr = (\<lambda>v. u ''?''),
      stdout_rejects = (\<lambda>text. None)\<rparr>"

definition reply_with :: "nat \<Rightarrow> pystr \<Rightarrow> exn + json \<Rightarrow> post_outcome" where
  "reply_with code rsn body =
     PostReturns \<lparr>status_code = code, reason = rsn, reply_url = u ''https://api.audd.io/'',
       json_result = body\<rparr>"

definition example_post :: post_request where
  "example_post =
     \<lparr>url = u ''https://api.audd.io/'',
      data = [(u ''api_token'', u ''test-token''),
              (u ''return'', u ''spotify,apple_music,youtube,deezer'')],
      files = [(u ''file'', (Some (u ''clip.mp3''), [0x49, 0x44, 0x33], u ''audio/mpeg''))]\<rparr>"

text \<open>The reply \<^verbatim>\<open>```json {"lyrics":"L","artist_info":"A"} ```\<close> and the same text without
  its fence; \<open>dq s\<close> is \<open>s\<close> between double quotes.\<close>

definition dq :: "pystr \<Rightarrow> pystr" where
  "dq s = 0x22 # s @ [0x22]"

definition FENCED_REPLY :: pystr where
  "FENCED_REPLY = u ''```json {'' @ dq (u ''lyrics'') @ u '':'' @ dq (u ''L'') @ u '',''
     @ dq (u ''artist_info'') @ u '':'' @ dq (u ''A'') @ u ''} ```''"

definition UNFENCED_REPLY :: pystr where
  "UNFENCED_REPLY = u '' {'' @ dq (u ''lyrics'') @ u '':'' @ dq (u ''L'') @ u '',''
     @ dq (u ''artist_info'') @ u '':'' @ dq (u ''A'') @ u ''} ''"

text \<open>Clients of the text-generation service that raise, or return a given text.\<close>

definition client_raising :: "exn \<Rightarrow> pystr \<Rightarrow> pystr \<Rightarrow> gen_outcome" where
  "client_raising e model contents = GenRaises e"

definition client_returning :: "pystr option \<Rightarrow> pystr \<Rightarrow> pystr \<Rightarrow> gen_outcome" where
  "client_returning text model contents = GenReturns text"

text \<open>Decoded bodies of the fingerprinting service: a service error, an error marker with
  \<open>"error": null\<close>, no match, and a match with a given record.\<close>

definition body_service_error :: json where
  "body_service_error =
     JDict [(u ''status'', JStr (u ''error'')),
            (u ''error'', JDict [(u ''error_code'', JInt 900),
                                 (u ''error_message'', JStr (u ''Wrong API token''))])]"

definition body_error_null :: json where
  "body_error_null = JDict [(u ''status'', JStr (u ''error'')), (u ''error'', JNull)]"

definition body_no_match :: json where
  "body_no_match = JDict [(u ''status'', JStr (u ''success'')), (u ''result'', JNull)]"

definition body_with_record :: "(pystr \<times> json) list \<Rightarrow> json" where
  "body_with_record r = JDict [(u ''status'', JStr (u ''success'')), (u ''result'', JDict r)]"

text \<open>Match records: without links; with a \<open>spotify\<close> entry that lacks \<open>external_urls\<close>; with
  \<open>spotify\<close> and \<open>deezer\<close> links only; with \<open>"youtube": null\<close>.\<close>

definition record_plain :: "(pystr \<times> json) list" where
  "record_plain =
     [(u ''title'', JStr (u ''Song'')), (u ''artist'', JStr (u ''Singer'')),
      (u ''album'', JStr (u ''Album''))]"

definition record_bad_spotify :: "(pystr \<times> json) list" where
  "record_bad_spotify =
     [(u ''title'', JStr (u ''Song'')), (u ''artist'', JStr (u ''Singer'')),
      (u ''spotify'', JDict [(u ''id'', JStr (u ''abc''))])]"



section \<open>Properties\<close>

subsection \<open>The decoder consumes its input and never runs out of calls\<close>

lemma scanstring_shorter:
  "scanstring acc s = Some (str, rest) \<Longrightarrow> length rest < length s"
proof (induction acc s rule: scanstring.induct)
  case (1 acc)
  then show ?case by simp
next
  case (2 acc c cs)
  then show ?case
    by (fastforce split: if_splits option.splits prod.splits)
qed

lemma skip_ws_le: "length (skip_ws s) \<le> length s"
  by (simp add: skip_ws_def length_dropWhile_le)

lemma scan_int_part_shorter:
  "scan_int_part s = Some (ip, rest) \<Longrightarrow> length rest < length s"
  by (auto simp: scan_int_part_def is_digit_def split: list.splits if_splits intro: le_imp_less_Suc length_dropWhile_le)

lemma scan_frac_le: "scan_frac s = (fr, rest) \<Longrightarrow> length rest \<le> length s"
  by (auto simp: scan_frac_def split: list.splits if_splits intro: le_SucI length_dropWhile_le)

lemma scan_exp_le: "scan_exp s = (ex, rest) \<Longrightarrow> length rest \<le> length s"
  by (auto simp: scan_exp_def Let_def split: list.splits if_splits prod.splits
      intro: le_SucI length_dropWhile_le)

lemma match_number_shorter:
  assumes "match_number s = Some (v, rest)"
  shows "length rest < length s"
proof -
  obtain neg s1 where s1: "(case s of [] \<Rightarrow> (False, s) | c # cs \<Rightarrow> if c = 0x2D then (True, cs) else (False, s)) = (neg, s1)"
    by (cases "(case s of [] \<Rightarrow> (False, s) | c # cs \<Rightarrow> if c = 0x2D then (True, cs) else (False, s))")
  then have l1: "length s1 \<le> length s"
    by (auto split: list.splits if_splits)
  from assms s1 obtain ip s2 where ip: "scan_int_part s1 = Some (ip, s2)"
    by (auto simp: match_number_def split: option.splits)
  obtain fr s3 where fr: "scan_frac s2 = (fr, s3)" by (cases "scan_frac s2")
  obtain ex s4 where ex: "scan_exp s3 = (ex, s4)" by (cases "scan_exp s3")
  from assms s1 ip fr ex have "rest = s4"
    by (auto simp: match_number_def split: if_splits)
  with l1 scan_int_part_shorter [OF ip] scan_frac_le [OF fr] scan_exp_le [OF ex]
  show ?thesis by simp
qed

lemma drop_take_shorter:
  "take n s = xs \<Longrightarrow> length xs = n \<Longrightarrow> 0 < n \<Longrightarrow> length (drop n s) < length s"
  by (metis diff_less length_drop length_greater_0_conv length_take list.size(3) min.absorb4 min.cobounded1 not_less take_eq_Nil)

lemma scan_scalar_shorter:
  "scan_scalar s = Some (v, rest) \<Longrightarrow> length rest < length s"
  by (auto simp: scan_scalar_def u_def split: if_splits option.splits
      dest: match_number_shorter intro: drop_take_shorter)

lemma scan_progress:
  "scan_once n s = Scanned v rest \<Longrightarrow> length rest < length s"
  "scan_items n acc s = Scanned v rest \<Longrightarrow> length rest < length s"
  "scan_pairs n kvs s = Scanned v rest \<Longrightarrow> length rest < length s"
proof (induction n s and n acc s and n kvs s arbitrary: v rest and v rest and v rest
       rule: scan_once_scan_items_scan_pairs.induct)
  case (1 s)
  then show ?case by simp
next
  case (2 n)
  then show ?case by simp
next
  case (3 n c cs)
  show ?case
  proof (cases "c = 0x22")
    case True
    with "3.prems" show ?thesis
      by (auto split: option.splits dest: scanstring_shorter)
  next
    case nq: False
    show ?thesis
    proof (cases "c = 0x7B")
      case True
      with nq "3.prems" obtain d ds where d: "skip_ws cs = d # ds"
        by (auto split: list.splits)
      have le: "length ds < length cs"
        using skip_ws_le [of cs] d by simp
      from True nq "3.prems" d have "(d = 0x7D \<and> rest = ds) \<or> (d = 0x22 \<and> scan_pairs n [] ds = Scanned v rest)"
        by (auto split: if_splits)
      then show ?thesis
      proof
        assume "d = 0x7D \<and> rest = ds"
        with le show ?thesis by simp
      next
        assume a: "d = 0x22 \<and> scan_pairs n [] ds = Scanned v rest"
        with "3.IH"(1) [OF nq True d] have "length rest < length ds" by simp
        with le show ?thesis by simp
      qed
    next
      case nb: False
      show ?thesis
      proof (cases "c = 0x5B")
        case True
        with nq nb "3.prems" obtain d ds where d: "skip_ws cs = d # ds"
          by (auto split: list.splits)
        have le: "length (d # ds) \<le> length cs"
          using skip_ws_le [of cs] d by simp
        from True nq nb "3.prems" d have "(d = 0x5D \<and> rest = ds) \<or> (d \<noteq> 0x5D \<and> scan_items n [] (d # ds) = Scanned v rest)"
          by (auto split: if_splits)
        then show ?thesis
        proof
          assume "d = 0x5D \<and> rest = ds"
          with le show ?thesis by simp
        next
          assume a: "d \<noteq> 0x5D \<and> scan_items n [] (d # ds) = Scanned v rest"
          with "3.IH"(2) [OF nq nb True d] have "length rest < length (d # ds)" by simp
          with le show ?thesis by simp
        qed
      next
        case False
        with nq nb "3.prems" show ?thesis
          by (auto split: option.splits dest: scan_scalar_shorter)
      qed
    qed
  qed
next
  case (4 acc s)
  then show ?case by simp
next
  case (5 n acc s)
  from "5.prems" obtain w r1 where w: "scan_once n s = Scanned w r1"
    by (auto split: scan.splits)
  have l1: "length r1 < length s" using "5.IH"(1) [OF w] .
  from "5.prems" w obtain d ds where d: "skip_ws r1 = d # ds"
    by (auto split: list.splits)
  have l2: "length ds < length r1" using skip_ws_le [of r1] d by simp
  from "5.prems" w d have "(d = 0x5D \<and> rest = ds) \<or> (d \<noteq> 0x5D \<and> d = 0x2C \<and> scan_items n (acc @ [w]) (skip_ws ds) = Scanned v rest)"
    by (auto split: if_splits)
  then show ?case
  proof
    assume "d = 0x5D \<and> rest = ds"
    with l1 l2 show ?thesis by simp
  next
    assume a: "d \<noteq> 0x5D \<and> d = 0x2C \<and> scan_items n (acc @ [w]) (skip_ws ds) = Scanned v rest"
    then have "length rest < length (skip_ws ds)"
      using "5.IH"(2) [OF w d] by simp
    with l1 l2 skip_ws_le [of ds] show ?thesis by simp
  qed
next
  case (6 kvs s)
  then show ?case by simp
next
  case (7 n kvs s)
  from "7.prems" obtain key r0 where k: "scanstring [] s = Some (key, r0)"
    by (auto split: option.splits)
  have l0: "length r0 < length s" using scanstring_shorter [OF k] .
  from "7.prems" k obtain d ds where d: "skip_ws r0 = d # ds"
    by (auto split: list.splits)
  have l1: "length ds < length r0" using skip_ws_le [of r0] d by simp
  from "7.prems" k d have dc: "\<not> d \<noteq> 0x3A" by (auto split: if_splits)
  from "7.prems" k d dc obtain w r2 where w: "scan_once n (skip_ws ds) = Scanned w r2"
    by (auto split: scan.splits)
  have l2: "length r2 < length (skip_ws ds)"
    using "7.IH"(1) [OF k refl d dc w] .
  from "7.prems" k d dc w obtain e es where e: "skip_ws r2 = e # es"
    by (auto split: list.splits)
  have l3: "length es < length r2" using skip_ws_le [of r2] e by simp
  show ?case
  proof (cases "e = 0x7D")
    case True
    with "7.prems" k d dc w e have "rest = es" by simp
    with l0 l1 l2 l3 skip_ws_le [of ds] show ?thesis by simp
  next
    case False
    with "7.prems" k d dc w e have ec: "e = 0x2C" by (auto split: if_splits)
    with "7.prems" k d dc w e False obtain q qs where q: "skip_ws es = q # qs"
      by (auto split: list.splits)
    have l4: "length qs < length es" using skip_ws_le [of es] q by simp
    from "7.prems" k d dc w e False ec q have qq: "q = 0x22" and
      r: "scan_pairs n (dict_set key w kvs) qs = Scanned v rest"
      by (auto split: if_splits)
    have "length rest < length qs"
      using "7.IH"(2) [OF k refl d dc w e False _ q] ec qq r by simp
    with l0 l1 l2 l3 l4 skip_ws_le [of ds] show ?thesis by simp
  qed
qed

lemma scan_fuel:
  "2 * length s < n \<Longrightarrow> scan_once n s \<noteq> Exhausted"
  "2 * length s + 1 < n \<Longrightarrow> scan_items n acc s \<noteq> Exhausted"
  "2 * length s < n \<Longrightarrow> scan_pairs n kvs s \<noteq> Exhausted"
proof (induction n s and n acc s and n kvs s rule: scan_once_scan_items_scan_pairs.induct)
  case (1 s)
  then show ?case by simp
next
  case (2 n)
  then show ?case by simp
next
  case (3 n c cs)
  show ?case
  proof (cases "c = 0x22")
    case True
    then show ?thesis by (auto split: option.splits)
  next
    case nq: False
    show ?thesis
    proof (cases "c = 0x7B")
      case True
      show ?thesis
      proof (cases "skip_ws cs")
        case Nil
        with True nq show ?thesis by simp
      next
        case (Cons d ds)
        have le: "length ds < length cs"
          using skip_ws_le [of cs] Cons by simp
        with "3.prems" have "2 * length ds < n" by simp
        with "3.IH"(1) [OF nq True Cons] True nq Cons show ?thesis by auto
      qed
    next
      case nb: False
      show ?thesis
      proof (cases "c = 0x5B")
        case True
        show ?thesis
        proof (cases "skip_ws cs")
          case Nil
          with True nq nb show ?thesis by simp
        next
          case (Cons d ds)
          have le: "length (d # ds) \<le> length cs"
            using skip_ws_le [of cs] Cons by simp
          with "3.prems" have "2 * length (d # ds) + 1 < n" by simp
          with "3.IH"(2) [OF nq nb True Cons] True nq nb Cons show ?thesis by auto
        qed
      next
        case False
        with nq nb show ?thesis by (auto split: option.splits)
      qed
    qed
  qed
next
  case (4 acc s)
  then show ?case by simp
next
  case (5 n acc s)
  from "5.prems" have "2 * length s < n" by simp
  then have ne: "scan_once n s \<noteq> Exhausted" by (rule "5.IH"(1))
  show ?case
  proof (cases "scan_once n s")
    case (Scanned w r1)
    have l1: "length r1 < length s" using scan_progress(1) [OF Scanned] .
    show ?thesis
    proof (cases "skip_ws r1")
      case Nil
      with Scanned show ?thesis by simp
    next
      case (Cons d ds)
      have l2: "length ds < length r1" using skip_ws_le [of r1] Cons by simp
      have "2 * length (skip_ws ds) + 1 < n"
        using l1 l2 skip_ws_le [of ds] "5.prems" by simp
      then have "d \<noteq> 0x5D \<Longrightarrow> d = 0x2C \<Longrightarrow> scan_items n (acc @ [w]) (skip_ws ds) \<noteq> Exhausted"
        using "5.IH"(2) [OF Scanned Cons] by simp
      with Scanned Cons show ?thesis by auto
    qed
  next
    case Malformed
    then show ?thesis by simp
  next
    case Exhausted
    with ne show ?thesis by simp
  qed
next
  case (6 kvs s)
  then show ?case by simp
next
  case (7 n kvs s)
  show ?case
  proof (cases "scanstring [] s")
    case None
    then show ?thesis by simp
  next
    case (Some kr)
    obtain key r0 where kr: "kr = (key, r0)" by (cases kr)
    have k: "scanstring [] s = Some (key, r0)" using Some kr by simp
    have l0: "length r0 < length s" using scanstring_shorter [OF k] .
    show ?thesis
    proof (cases "skip_ws r0")
      case Nil
      with k show ?thesis by simp
    next
      case (Cons d ds)
      have l1: "length ds < length r0" using skip_ws_le [of r0] Cons by simp
      show ?thesis
      proof (cases "d \<noteq> 0x3A")
        case True
        with k Cons show ?thesis by simp
      next
        case dc: False
        have "2 * length (skip_ws ds) < n"
          using l0 l1 skip_ws_le [of ds] "7.prems" by simp
        then have ne: "scan_once n (skip_ws ds) \<noteq> Exhausted"
          by (rule "7.IH"(1) [OF k refl Cons dc])
        show ?thesis
        proof (cases "scan_once n (skip_ws ds)")
          case (Scanned w r2)
          have l2: "length r2 < length (skip_ws ds)" using scan_progress(1) [OF Scanned] .
          show ?thesis
          proof (cases "skip_ws r2")
            case Nil
            with k Cons dc Scanned show ?thesis by simp
          next
            case e: (Cons e es)
            have l3: "length es < length r2" using skip_ws_le [of r2] e by simp
            show ?thesis
            proof (cases "e = 0x7D")
              case True
              with k Cons dc Scanned e show ?thesis by simp
            next
              case ne7: False
              show ?thesis
              proof (cases "e = 0x2C")
                case ec: True
                show ?thesis
                proof (cases "skip_ws es")
                  case Nil
                  with k Cons dc Scanned e ne7 ec show ?thesis by simp
                next
                  case q: (Cons q qs)
                  have l4: "length qs < length es" using skip_ws_le [of es] q by simp
                  have "2 * length qs < n"
                    using l0 l1 l2 l3 l4 skip_ws_le [of ds] "7.prems" by simp
                  then have "q = 0x22 \<Longrightarrow> scan_pairs n (dict_set key w kvs) qs \<noteq> Exhausted"
                    using "7.IH"(2) [OF k refl Cons dc Scanned e ne7 ec q] by simp
                  with k Cons dc Scanned e ne7 ec q show ?thesis by auto
                qed
              next
                case False
                with k Cons dc Scanned e ne7 show ?thesis by simp
              qed
            qed
          qed
        next
          case Malformed
          with k Cons dc show ?thesis by simp
        next
          case Exhausted
          with ne show ?thesis by simp
        qed
      qed
    qed
  qed
qed

lemma json_loads_not_exhausted: "json_loads s \<noteq> Inl (RecursionError m)"
proof -
  have "2 * length (skip_ws s) < Suc (length s + length s)"
    using skip_ws_le [of s] by simp
  then have "scan_once (Suc (length s + length s)) (skip_ws s) \<noteq> Exhausted"
    by (rule scan_fuel(1))
  then show ?thesis
    by (auto simp: json_loads_def split: scan.splits)
qed

lemma json_loads_cases:
  "(\<exists>v. json_loads s = Inr v) \<or> json_loads s = Inl (JSONDecodeError [])"
  using json_loads_not_exhausted [of s "[]"]
  by (auto simp: json_loads_def split: scan.splits)

subsection \<open>Auxiliary facts\<close>

lemma audd_request_example:
  "audd_request (example_env client outcome) example_upload = example_post"
  by (simp add: audd_request_def example_env_def example_upload_def example_post_def)

lemma str_nat_404: "str_nat 404 = u ''404''"
  by (simp add: str_nat.simps [of 404] str_nat.simps [of 40] str_nat.simps [of 4] u_def)

lemma recognize_endpoint_after_decode:
  assumes "audd_returns ev request result"
  shows "\<exists>audio_file. map_of (request_files request) (u ''audio_file'') = Some audio_file \<and>
           recognize_endpoint ev request =
             (case handle_result ev result of
                (Inr response, calls) \<Rightarrow> (response, AuddPost (audd_request ev audio_file) # calls)
              | (Inl e, calls) \<Rightarrow> (recognize_except e, AuddPost (audd_request ev audio_file) # calls))"
  using assms
  by (auto simp: audd_returns_def recognize_endpoint_def recognize_try_def Let_def
           split: option.splits post_outcome.splits sum.splits prod.splits)

lemma example_audd_returns:
  "audd_returns (example_env client (reply_with 200 rsn (Inr result))) example_request result"
  by (simp add: audd_returns_def example_request_def example_env_def reply_with_def
        raise_for_status_def)

lemma handle_result_error_marker:
  assumes "map_of d (u ''status'') = Some (JStr (u ''error''))"
  shows "handle_result ev (JDict d) = (service_error_response (py_repr ev) (JDict d), [])"
  using assms by (simp add: handle_result_def)

lemma handle_result_no_match:
  assumes "map_of d (u ''status'') \<noteq> Some (JStr (u ''error''))"
    and "\<not> py_truthy (get_or_null d (u ''result''))"
  shows "handle_result ev (JDict d) = (Inr (fail_payload MSG_NO_MATCH, 200), [])"
  using assms by (auto simp: handle_result_def get_or_null_def split: option.splits)

lemma str_int_900: "str_int 900 = u ''900''"
  by (simp add: str_int_def str_nat.simps [of 900] str_nat.simps [of 90] str_nat.simps [of 9] u_def)

lemma handle_result_match:
  assumes "match_record result (JDict r)"
  shows "handle_result ev result =
           (try_bind (fst (get_song_info_from_gemini ev (get_or_null r (u ''title''))
                             (get_or_null r (u ''artist''))))
              (success_response (JDict r) (get_or_null r (u ''title''))
                 (get_or_null r (u ''artist''))),
            snd (get_song_info_from_gemini ev (get_or_null r (u ''title''))
                   (get_or_null r (u ''artist''))))"
proof (cases result)
  case (JDict d)
  with assms have s: "map_of d (u ''status'') \<noteq> Some (JStr (u ''error''))"
    and m: "map_of d (u ''result'') = Some (JDict r)" and t: "py_truthy (JDict r)"
    by simp_all
  from s have s': "(case map_of d (u ''status'') of None \<Rightarrow> JNull | Some v \<Rightarrow> v) \<noteq> JStr (u ''error'')"
    by (auto split: option.splits)
  show ?thesis
    using s' m t
    by (simp add: JDict handle_result_def handle_match_def get_or_null_def split: prod.splits)
qed (use assms in simp_all)

lemma gemini_raises_not_http:
  assumes "fst (get_song_info_from_gemini ev t a) = Inl e"
  shows "\<not> is_HTTPError e"
  using assms
  by (auto simp: get_song_info_from_gemini_def gemini_except_def py_print_def try_bind_def Let_def
           split: option.splits prod.splits sum.splits if_splits)

lemma py_getitem_not_http: "py_getitem v k = Inl e \<Longrightarrow> \<not> is_HTTPError e"
  by (cases v) (auto split: option.splits)

lemma subscript_path_not_http: "subscript_path v path = Inl e \<Longrightarrow> \<not> is_HTTPError e"
proof (induction path arbitrary: v)
  case Nil
  then show ?case by simp
next
  case (Cons k ks)
  then show ?case
    by (auto simp: try_bind_def split: sum.splits dest: py_getitem_not_http)
qed

lemma add_link_dict:
  "add_link (JDict r) field path name links =
     (if py_truthy (get_or_null r field)
      then (case subscript_path (get_or_null r field) path of
              Inl e \<Rightarrow> Inl e
            | Inr v \<Rightarrow> Inr (dict_set name v links))
      else Inr links)"
  by (auto simp: add_link_def try_bind_def get_or_null_def split: option.splits sum.splits)

lemma add_link_not_http: "add_link (JDict r) field path name links = Inl e \<Longrightarrow> \<not> is_HTTPError e"
  by (auto simp: add_link_dict split: if_splits sum.splits dest: subscript_path_not_http)

lemma extract_links_not_http:
  assumes "extract_links (JDict r) = Inl e"
  shows "\<not> is_HTTPError e"
  using assms
  by (auto simp: extract_links_def try_bind_def split: sum.splits dest: add_link_not_http)

lemma extract_links_raises:
  assumes "(field, path, name) \<in> set PLATFORM_LINKS"
    and "py_truthy (get_or_null r field)"
    and "subscript_path (get_or_null r field) path = Inl e"
  shows "\<exists>e'. extract_links (JDict r) = Inl e'"
  using assms
  by (auto simp: PLATFORM_LINKS_def extract_links_def try_bind_def add_link_dict split: sum.splits)

lemma success_response_links_raise:
  "extract_links r = Inl e \<Longrightarrow> success_response r t a g = Inl e"
  by (simp add: success_response_def try_bind_def)

lemma success_response_ok:
  assumes "extract_links (JDict r) = Inr links"
  shows "success_response (JDict r) t a (JDict g) =
           Inr (success_payload t a (get_or_null r (u ''album'')) links
                  (case map_of g (u ''lyrics'') of None \<Rightarrow> JStr FALLBACK_LYRICS | Some v \<Rightarrow> v)
                  (case map_of g (u ''artist_info'') of
                     None \<Rightarrow> JStr FALLBACK_ARTIST_INFO | Some v \<Rightarrow> v), 200)"
  using assms by (simp add: success_response_def try_bind_def get_or_null_def)

lemma endpoint_of_enrichment:
  assumes "audd_returns ev request result"
    and "match_record result (JDict r)"
    and "extract_links (JDict r) = Inr links"
    and "fst (get_song_info_from_gemini ev (get_or_null r (u ''title'')) (get_or_null r (u ''artist'')))
           = Inr (JDict g)"
  shows "answers_success ev request r links
           (case map_of g (u ''lyrics'') of None \<Rightarrow> JStr FALLBACK_LYRICS | Some v \<Rightarrow> v)
           (case map_of g (u ''artist_info'') of None \<Rightarrow> JStr FALLBACK_ARTIST_INFO | Some v \<Rightarrow> v)"
  using recognize_endpoint_after_decode [OF assms(1)] assms(4)
  by (auto simp: answers_success_def handle_result_match [OF assms(2)] try_bind_def
        success_response_ok [OF assms(3)] success_payload_def)

lemma endpoint_of_placeholders:
  assumes "audd_returns ev request result"
    and "match_record result (JDict r)"
    and "extract_links (JDict r) = Inr links"
    and "fst (get_song_info_from_gemini ev (get_or_null r (u ''title'')) (get_or_null r (u ''artist'')))
           = Inr (enrichment l a)"
  shows "answers_success ev request r links (JStr l) (JStr a)"
proof -
  have "answers_success ev request r links
           (case map_of [(u ''lyrics'', JStr l), (u ''artist_info'', JStr a)] (u ''lyrics'') of
              None \<Rightarrow> JStr FALLBACK_LYRICS | Some v \<Rightarrow> v)
           (case map_of [(u ''lyrics'', JStr l), (u ''artist_info'', JStr a)] (u ''artist_info'') of
              None \<Rightarrow> JStr FALLBACK_ARTIST_INFO | Some v \<Rightarrow> v)"
    using assms(4) by (intro endpoint_of_enrichment [OF assms(1,2,3)]) (simp add: enrichment_def)
  then show ?thesis by (simp add: u_def)
qed

lemma body_with_record_match:
  "r \<noteq> [] \<Longrightarrow> match_record (body_with_record r) (JDict r)"
  by (simp add: body_with_record_def u_def)

lemma extract_links_plain: "extract_links (JDict record_plain) = Inr []"
  by (simp add: extract_links_def add_link_dict try_bind_def get_or_null_def record_plain_def u_def)

lemma loads_empty_object: "json_loads (cleaned_text (u ''{}'')) = Inr (JDict [])"
  by (simp add: cleaned_text_def rstrip_chars_def lstrip_chars_def strip_def py_isspace_def
        json_loads_def skip_ws_def json_ws_def u_def)











lemma gemini_without_client:
  "gemini_client ev = None \<Longrightarrow>
     get_song_info_from_gemini ev t a = (Inr (enrichment MSG_AI_NOT_STARTED MSG_AI_NOT_STARTED), [])"
  by (simp add: get_song_info_from_gemini_def)

lemma gemini_api_error:
  "gemini_client ev = Some gc \<Longrightarrow>
   gc (u ''gemini-2.5-flash'') (prompt (py_repr ev) t a) = GenRaises (APIError m) \<Longrightarrow>
   stdout_rejects ev (PRINT_API_ERROR @ m) = None \<Longrightarrow>
     fst (get_song_info_from_gemini ev t a)
       = Inr (enrichment MSG_API_FAILED (MSG_API_FAILED_DETAIL @ m))"
  by (simp add: get_song_info_from_gemini_def gemini_try_def gemini_except_def py_print_def
        try_bind_def Let_def)

lemma gemini_unparsable:
  "gemini_client ev = Some gc \<Longrightarrow>
   gc (u ''gemini-2.5-flash'') (prompt (py_repr ev) t a) = GenReturns (Some text) \<Longrightarrow>
   json_loads (cleaned_text text) = Inl (JSONDecodeError m) \<Longrightarrow>
   stdout_rejects ev (PRINT_UNPARSABLE @ text) = None \<Longrightarrow>
     fst (get_song_info_from_gemini ev t a) = Inr (enrichment MSG_FORMAT_ERROR MSG_FORMAT_ERROR)"
  by (simp add: get_song_info_from_gemini_def gemini_try_def gemini_except_def py_print_def
        try_bind_def Let_def)

lemma gemini_no_text:
  "gemini_client ev = Some gc \<Longrightarrow>
   gc (u ''gemini-2.5-flash'') (prompt (py_repr ev) t a) = GenReturns None \<Longrightarrow>
   stdout_rejects ev (PRINT_UNKNOWN_ERROR @ quoted (u ''NoneType'')
      @ u '' object has no attribute '' @ quoted (u ''strip'')) = None \<Longrightarrow>
     fst (get_song_info_from_gemini ev t a) = Inr (enrichment MSG_UNKNOWN_ERROR MSG_UNKNOWN_ERROR)"
  by (simp add: get_song_info_from_gemini_def gemini_try_def gemini_except_def py_print_def
        try_bind_def Let_def)

lemma gemini_print_raises:
  "gemini_client ev = Some gc \<Longrightarrow>
   gc (u ''gemini-2.5-flash'') (prompt (py_repr ev) t a) = GenReturns (Some text) \<Longrightarrow>
   json_loads (cleaned_text text) = Inl (JSONDecodeError m) \<Longrightarrow>
   stdout_rejects ev (PRINT_UNPARSABLE @ text) = Some w \<Longrightarrow>
     fst (get_song_info_from_gemini ev t a) = Inl (UnicodeEncodeError w)"
  by (simp add: get_song_info_from_gemini_def gemini_try_def gemini_except_def py_print_def
        try_bind_def Let_def)

lemma gemini_other_exception_escapes:
  "gemini_client ev = Some gc \<Longrightarrow>
   gc (u ''gemini-2.5-flash'') (prompt (py_repr ev) t a) = GenRaises e \<Longrightarrow> \<not> is_APIError e \<Longrightarrow>
     fst (get_song_info_from_gemini ev t a) = Inl (UnboundLocalError UNBOUND_JSON)"
  by (simp add: get_song_info_from_gemini_def gemini_try_def gemini_except_def Let_def)

lemma endpoint_calls_of_match:
  assumes "audd_returns ev request result"
    and "match_record result (JDict r)"
  shows "\<exists>rq. snd (recognize_endpoint ev request) =
           AuddPost rq # snd (get_song_info_from_gemini ev (get_or_null r (u ''title''))
                                (get_or_null r (u ''artist'')))"
proof -
  let ?g = "get_song_info_from_gemini ev (get_or_null r (u ''title'')) (get_or_null r (u ''artist''))"
  have h: "snd (handle_result ev result) = snd ?g"
    by (simp add: handle_result_match [OF assms(2)])
  from recognize_endpoint_after_decode [OF assms(1)] obtain audio_file where
    "recognize_endpoint ev request =
       (case handle_result ev result of
          (Inr response, calls) \<Rightarrow> (response, AuddPost (audd_request ev audio_file) # calls)
        | (Inl e, calls) \<Rightarrow> (recognize_except e, AuddPost (audd_request ev audio_file) # calls))"
    by blast
  then have "snd (recognize_endpoint ev request) =
               AuddPost (audd_request ev audio_file) # snd (handle_result ev result)"
    by (cases "handle_result ev result"; cases "fst (handle_result ev result)") simp_all
  with h show ?thesis by simp
qed

lemma endpoint_of_escaped_enrichment:
  assumes "audd_returns ev request result"
    and "match_record result (JDict r)"
    and "fst (get_song_info_from_gemini ev (get_or_null r (u ''title'')) (get_or_null r (u ''artist'')))
           = Inl e"
  shows "fst (recognize_endpoint ev request) = (error_payload (BACKEND_ERROR_PREFIX @ str_exn e), 500)"
  using recognize_endpoint_after_decode [OF assms(1)] assms(3) gemini_raises_not_http [OF assms(3)]
  by (cases e) (auto simp: handle_result_match [OF assms(2)] try_bind_def recognize_except_def)

text \<open>
  What the handlers of lines 35 to 77 give when they are reached and their \<open>print\<close> goes
  through: with no client, after an \<open>APIError\<close>, and for a reply that is not JSON.
\<close>

lemma enrichment_placeholders_when_handled:
  assumes "audd_returns ev request result"
    and "match_record result (JDict r)"
    and "extract_links (JDict r) = Inr links"
  shows "(gemini_client ev = None \<longrightarrow>
            answers_success ev request r links (JStr MSG_AI_NOT_STARTED) (JStr MSG_AI_NOT_STARTED)
            \<and> (\<forall>model contents. GeminiGenerate model contents \<notin> set (snd (recognize_endpoint ev request))))
       \<and> (\<forall>generate_content m.
            gemini_client ev = Some generate_content
            \<and> generate_content (u ''gemini-2.5-flash'')
                 (prompt (py_repr ev) (get_or_null r (u ''title'')) (get_or_null r (u ''artist'')))
                = GenRaises (APIError m)
            \<and> stdout_rejects ev (PRINT_API_ERROR @ m) = None \<longrightarrow>
            answers_success ev request r links (JStr MSG_API_FAILED) (JStr (MSG_API_FAILED_DETAIL @ m)))
       \<and> (\<forall>generate_content text m.
            gemini_client ev = Some generate_content
            \<and> generate_content (u ''gemini-2.5-flash'')
                 (prompt (py_repr ev) (get_or_null r (u ''title'')) (get_or_null r (u ''artist'')))
                = GenReturns (Some text)
            \<and> json_loads (cleaned_text text) = Inl (JSONDecodeError m)
            \<and> stdout_rejects ev (PRINT_UNPARSABLE @ text) = None \<longrightarrow>
            answers_success ev request r links (JStr MSG_FORMAT_ERROR) (JStr MSG_FORMAT_ERROR))"
proof -
  note ok = endpoint_of_placeholders [OF assms]
  have c1: "answers_success ev request r links (JStr MSG_AI_NOT_STARTED) (JStr MSG_AI_NOT_STARTED)"
    if "gemini_client ev = None"
    using that by (intro ok) (simp add: gemini_without_client)
  have c1': "GeminiGenerate model contents \<notin> set (snd (recognize_endpoint ev request))"
    if "gemini_client ev = None" for model contents
    using that endpoint_calls_of_match [OF assms(1,2)] by (auto simp: gemini_without_client)
  have c2: "answers_success ev request r links (JStr MSG_API_FAILED) (JStr (MSG_API_FAILED_DETAIL @ m))"
    if "gemini_client ev = Some gc"
      and "gc (u ''gemini-2.5-flash'')
             (prompt (py_repr ev) (get_or_null r (u ''title'')) (get_or_null r (u ''artist'')))
            = GenRaises (APIError m)"
      and "stdout_rejects ev (PRINT_API_ERROR @ m) = None" for gc m
    using that by (intro ok) (rule gemini_api_error)
  have c3: "answers_success ev request r links (JStr MSG_FORMAT_ERROR) (JStr MSG_FORMAT_ERROR)"
    if "gemini_client ev = Some gc"
      and "gc (u ''gemini-2.5-flash'')
             (prompt (py_repr ev) (get_or_null r (u ''title'')) (get_or_null r (u ''artist'')))
            = GenReturns (Some reply)"
      and "json_loads (cleaned_text reply) = Inl (JSONDecodeError m)"
      and "stdout_rejects ev (PRINT_UNPARSABLE @ reply) = None" for gc reply m
    using that by (intro ok) (rule gemini_unparsable)
  from c1 c1' c2 c3 show ?thesis by blast
qed



lemma loads_not_json: "json_loads (cleaned_text (u ''Sorry, no lyrics.'')) = Inl (JSONDecodeError [])"
  by (simp add: cleaned_text_def rstrip_chars_def lstrip_chars_def strip_def py_isspace_def
        json_loads_def skip_ws_def json_ws_def scan_scalar_def match_number_def scan_int_part_def
        u_def)

lemma cleaned_fenced_reply: "cleaned_text FENCED_REPLY = UNFENCED_REPLY"
  by (simp add: cleaned_text_def FENCED_REPLY_def UNFENCED_REPLY_def dq_def rstrip_chars_def
        lstrip_chars_def strip_def u_def py_isspace_def)

lemma loads_unfenced_reply: "json_loads UNFENCED_REPLY = Inr (enrichment (u ''L'') (u ''A''))"
  by (simp add: UNFENCED_REPLY_def dq_def json_loads_def u_def skip_ws_def json_ws_def
        scan_scalar_def scan_escape_def enrichment_def)

subsection \<open>Missing upload\<close>

text \<open>
  C8. A request whose multipart form data has no \<open>audio_file\<close> field is answered with HTTP 400
  and a payload with \<open>status\<close> \<open>error\<close> and a (non-empty) message, and no outbound call is made:
  neither the fingerprinting service nor the text-generation service is contacted.
\<close>

theorem missing_audio_file_400:
  assumes "map_of (request_files request) (u ''audio_file'') = None"
  shows "recognize_endpoint ev request =
           ((JDict [(u ''status'', JStr (u ''error'')), (u ''message'', JStr MSG_NO_FILE)], 400), [])
         \<and> MSG_NO_FILE \<noteq> []"
  using assms by (simp add: recognize_endpoint_def error_payload_def MSG_NO_FILE_def)

theorem missing_audio_file_400_witness:
  "map_of (request_files other_field_request) (u ''audio_file'') = None
   \<and> recognize_endpoint (example_env None (PostRaises (OtherException (u ''unreachable''))))
       other_field_request =
       ((JDict [(u ''status'', JStr (u ''error'')), (u ''message'', JStr MSG_NO_FILE)], 400), [])"
proof -
  have h: "map_of (request_files other_field_request) (u ''audio_file'') = None"
    by (simp add: other_field_request_def u_def)
  show ?thesis
    using h missing_audio_file_400 [OF h] by simp
qed

subsection \<open>Transport errors\<close>

text \<open>
  C7. When the POST to the fingerprinting service completes with an HTTP error status (4xx
  or 5xx), the endpoint answers HTTP 500 with \<open>status\<close> \<open>error\<close> and a message that ends with
  the upstream status code in decimal. Only the fingerprinting service has been called.
\<close>

theorem upstream_http_error_500:
  assumes "map_of (request_files request) (u ''audio_file'') = Some audio_file"
    and "requests_post ev (audd_request ev audio_file) = PostReturns response"
    and "400 \<le> status_code response" and "status_code response < 600"
  shows "recognize_endpoint ev request =
           ((JDict [(u ''status'', JStr (u ''error'')),
                    (u ''message'', JStr (HTTP_ERROR_PREFIX @ str_nat (status_code response)))], 500),
            [AuddPost (audd_request ev audio_file)])"
  using assms
  by (simp add: recognize_endpoint_def recognize_try_def raise_for_status_def recognize_except_def
        error_payload_def Let_def)

theorem upstream_http_error_500_witness:
  "map_of (request_files example_request) (u ''audio_file'') = Some example_upload
   \<and> requests_post (example_env None (reply_with 404 (u ''Not Found'') (Inl (JSONDecodeError []))))
        (audd_request (example_env None (reply_with 404 (u ''Not Found'') (Inl (JSONDecodeError []))))
           example_upload)
      = reply_with 404 (u ''Not Found'') (Inl (JSONDecodeError []))
   \<and> recognize_endpoint (example_env None (reply_with 404 (u ''Not Found'') (Inl (JSONDecodeError []))))
        example_request =
        ((JDict [(u ''status'', JStr (u ''error'')),
                 (u ''message'', JStr (HTTP_ERROR_PREFIX @ u ''404''))], 500),
         [AuddPost example_post])"
proof -
  let ?ev = "example_env None (reply_with 404 (u ''Not Found'') (Inl (JSONDecodeError [])))"
  let ?rsp = "\<lparr>status_code = 404, reason = u ''Not Found'', reply_url = u ''https://api.audd.io/'',
                json_result = Inl (JSONDecodeError [])\<rparr>"
  have f: "map_of (request_files example_request) (u ''audio_file'') = Some example_upload"
    by (simp add: example_request_def)
  have p: "requests_post ?ev (audd_request ?ev example_upload) = PostReturns ?rsp"
    by (simp add: example_env_def reply_with_def)
  have "recognize_endpoint ?ev example_request =
          ((JDict [(u ''status'', JStr (u ''error'')),
                   (u ''message'', JStr (HTTP_ERROR_PREFIX @ str_nat (status_code ?rsp)))], 500),
           [AuddPost (audd_request ?ev example_upload)])"
    by (rule upstream_http_error_500 [OF f p]) simp_all
  then show ?thesis
    using f p by (simp add: str_nat_404 audd_request_example reply_with_def)
qed

subsection \<open>Unexpected exceptions\<close>



subsection \<open>A fenced reply\<close>

text \<open>
  C3. When the text-generation service returns the reply
  \<^verbatim>\<open>```json {"lyrics":"L","artist_info":"A"} ```\<close>, line 65 strips the fence (leaving the
  object between two spaces) and \<open>get_song_info_from_gemini\<close> returns exactly the mapping
  with \<open>lyrics\<close> \<open>L\<close> and \<open>artist_info\<close> \<open>A\<close>.
\<close>

theorem fenced_reply_parsed:
  assumes "gemini_client ev = Some generate_content"
    and "generate_content (u ''gemini-2.5-flash'') (prompt (py_repr ev) title artist)
           = GenReturns (Some FENCED_REPLY)"
  shows "cleaned_text FENCED_REPLY = UNFENCED_REPLY \<and>
         fst (get_song_info_from_gemini ev title artist) =
           Inr (JDict [(u ''lyrics'', JStr (u ''L'')), (u ''artist_info'', JStr (u ''A''))])"
  using assms
  by (simp add: get_song_info_from_gemini_def gemini_try_def Let_def cleaned_fenced_reply
        loads_unfenced_reply enrichment_def)

theorem fenced_reply_parsed_witness:
  "gemini_client (example_env (Some (client_returning (Some FENCED_REPLY)))
      (PostRaises (OtherException []))) = Some (client_returning (Some FENCED_REPLY))
   \<and> fst (get_song_info_from_gemini
        (example_env (Some (client_returning (Some FENCED_REPLY)))
           (PostRaises (OtherException [])))
        (JStr (u ''Song'')) (JStr (u ''Singer''))) =
      Inr (JDict [(u ''lyrics'', JStr (u ''L'')), (u ''artist_info'', JStr (u ''A''))])"
proof -
  let ?gc = "client_returning (Some FENCED_REPLY)"
  let ?ev = "example_env (Some ?gc) (PostRaises (OtherException []))"
  have c: "gemini_client ?ev = Some ?gc" by (simp add: example_env_def)
  have g: "?gc (u ''gemini-2.5-flash'') (prompt (py_repr ?ev) (JStr (u ''Song'')) (JStr (u ''Singer'')))
             = GenReturns (Some FENCED_REPLY)" by (simp add: client_returning_def)
  show ?thesis
    using c fenced_reply_parsed [OF c g] by simp
qed

subsection \<open>Service errors\<close>

text \<open>
  C5 (as amended). When the decoded body of the fingerprinting response is an object with
  \<open>status == "error"\<close> whose \<open>error\<close> entry is absent or is itself an object, the endpoint
  answers HTTP 200 with \<open>status\<close> \<open>fail\<close> and the message of line 115: the fixed opening, the
  upstream error code (\<open>N/A\<close> when there is none), the fixed separator, and the upstream
  error message (a fixed default when there is none). The message therefore contains both.
\<close>

theorem service_error_fail:
  assumes "audd_returns ev request (JDict d)"
    and "map_of d (u ''status'') = Some (JStr (u ''error''))"
    and "(map_of d (u ''error'') = None \<and> info = []) \<or> map_of d (u ''error'') = Some (JDict info)"
  shows "fst (recognize_endpoint ev request) =
           (JDict [(u ''status'', JStr (u ''fail'')),
                   (u ''message'', JStr (SERVICE_ERROR_OPEN
                      @ py_str (py_repr ev)
                          (case map_of info (u ''error_code'') of
                             None \<Rightarrow> JStr (u ''N/A'') | Some c \<Rightarrow> c)
                      @ SERVICE_ERROR_CLOSE
                      @ py_str (py_repr ev)
                          (case map_of info (u ''error_message'') of
                             None \<Rightarrow> JStr MSG_AUDD_UNKNOWN | Some m \<Rightarrow> m)))], 200)"
proof -
  have "service_error_response (py_repr ev) (JDict d) =
          Inr (fail_payload (SERVICE_ERROR_OPEN
                 @ py_str (py_repr ev)
                     (case map_of info (u ''error_code'') of None \<Rightarrow> JStr (u ''N/A'') | Some c \<Rightarrow> c)
                 @ SERVICE_ERROR_CLOSE
                 @ py_str (py_repr ev)
                     (case map_of info (u ''error_message'') of
                        None \<Rightarrow> JStr MSG_AUDD_UNKNOWN | Some m \<Rightarrow> m)), 200)"
    using assms(3) by (auto simp: service_error_response_def try_bind_def)
  with recognize_endpoint_after_decode [OF assms(1)] handle_result_error_marker [OF assms(2), of ev]
  show ?thesis
    by (auto simp: fail_payload_def)
qed

text \<open>The witness: error code 900 with the message \<open>Wrong API token\<close>.\<close>

theorem service_error_fail_witness:
  "audd_returns (example_env None (reply_with 200 (u ''OK'') (Inr body_service_error)))
     example_request body_service_error
   \<and> fst (recognize_endpoint (example_env None (reply_with 200 (u ''OK'') (Inr body_service_error)))
        example_request) =
       (JDict [(u ''status'', JStr (u ''fail'')),
               (u ''message'', JStr (SERVICE_ERROR_OPEN @ u ''900'' @ SERVICE_ERROR_CLOSE
                  @ u ''Wrong API token''))], 200)"
proof -
  let ?ev = "example_env None (reply_with 200 (u ''OK'') (Inr body_service_error))"
  let ?d = "[(u ''status'', JStr (u ''error'')),
             (u ''error'', JDict [(u ''error_code'', JInt 900),
                                  (u ''error_message'', JStr (u ''Wrong API token''))])]"
  let ?info = "[(u ''error_code'', JInt 900), (u ''error_message'', JStr (u ''Wrong API token''))]"
  have a: "audd_returns ?ev example_request (JDict ?d)"
    using example_audd_returns [of None "u ''OK''" body_service_error]
    by (simp add: body_service_error_def)
  have s: "map_of ?d (u ''status'') = Some (JStr (u ''error''))" by simp
  have e: "(map_of ?d (u ''error'') = None \<and> ?info = []) \<or> map_of ?d (u ''error'') = Some (JDict ?info)"
    by (simp add: u_def)
  show ?thesis
    using a service_error_fail [OF a s e]
    by (simp add: body_service_error_def str_int_900 u_def)
qed

text \<open>
  As stated for every body with the error marker, the property fails: when the \<open>error\<close>
  entry is present but is not an object (here \<open>null\<close>), \<open>result.get("error", {})\<close> returns
  it, \<open>error_info.get\<close> raises \<open>AttributeError\<close>, and the answer is HTTP 500 with \<open>status\<close>
  \<open>error\<close>.
\<close>

theorem service_error_non_object_counterexample:
  "audd_returns (example_env None (reply_with 200 (u ''OK'') (Inr body_error_null)))
     example_request body_error_null
   \<and> py_get body_error_null (u ''status'') JNull = Inr (JStr (u ''error''))
   \<and> fst (recognize_endpoint (example_env None (reply_with 200 (u ''OK'') (Inr body_error_null)))
        example_request) =
       (JDict [(u ''status'', JStr (u ''error'')),
               (u ''message'', JStr (BACKEND_ERROR_PREFIX @ quoted (u ''NoneType'')
                  @ u '' object has no attribute '' @ quoted (u ''get'')))], 500)"
proof -
  let ?ev = "example_env None (reply_with 200 (u ''OK'') (Inr body_error_null))"
  have a: "audd_returns ?ev example_request body_error_null"
    by (rule example_audd_returns)
  have h: "handle_result ?ev body_error_null =
             (Inl (AttributeError (quoted (u ''NoneType'') @ u '' object has no attribute ''
                @ quoted (u ''get''))), [])"
    by (simp add: body_error_null_def handle_result_def service_error_response_def try_bind_def u_def)
  show ?thesis
    using a recognize_endpoint_after_decode [OF a] h
    by (auto simp: recognize_except_def error_payload_def body_error_null_def)
qed

subsection \<open>No match\<close>

text \<open>
  C6 (as amended). When the decoded body of the fingerprinting response is an object that
  does not carry the error marker and has no match record (no \<open>result\<close> key, or a falsy
  one), the endpoint answers HTTP 200 with \<open>status\<close> \<open>fail\<close> and the fixed no-match message.
\<close>

theorem no_match_fail:
  assumes "audd_returns ev request (JDict d)"
    and "map_of d (u ''status'') \<noteq> Some (JStr (u ''error''))"
    and "\<not> py_truthy (get_or_null d (u ''result''))"
  shows "fst (recognize_endpoint ev request) =
           (JDict [(u ''status'', JStr (u ''fail'')), (u ''message'', JStr MSG_NO_MATCH)], 200)"
  using recognize_endpoint_after_decode [OF assms(1)] handle_result_no_match [OF assms(2,3), of ev]
  by (auto simp: fail_payload_def)

text \<open>The witness: the body \<open>{"status": "success", "result": null}\<close>.\<close>

theorem no_match_fail_witness:
  "audd_returns (example_env None (reply_with 200 (u ''OK'') (Inr body_no_match)))
     example_request body_no_match
   \<and> fst (recognize_endpoint (example_env None (reply_with 200 (u ''OK'') (Inr body_no_match)))
        example_request) =
       (JDict [(u ''status'', JStr (u ''fail'')), (u ''message'', JStr MSG_NO_MATCH)], 200)"
proof -
  let ?ev = "example_env None (reply_with 200 (u ''OK'') (Inr body_no_match))"
  let ?d = "[(u ''status'', JStr (u ''success'')), (u ''result'', JNull)]"
  have a: "audd_returns ?ev example_request (JDict ?d)"
    using example_audd_returns [of None "u ''OK''" body_no_match]
    by (simp add: body_no_match_def)
  have s: "map_of ?d (u ''status'') \<noteq> Some (JStr (u ''error''))" by (simp add: u_def)
  have t: "\<not> py_truthy (get_or_null ?d (u ''result''))" by (simp add: get_or_null_def u_def)
  show ?thesis
    using a no_match_fail [OF a s t] by (simp add: body_no_match_def)
qed

text \<open>
  As stated for every body without a match record, the property fails: the error marker is
  tested first (line 110), and a service error response has no \<open>result\<close> key either. It is
  answered with the service error message, not with the no-match message.
\<close>

theorem no_match_error_marker_counterexample:
  "audd_returns (example_env None (reply_with 200 (u ''OK'') (Inr body_service_error)))
     example_request body_service_error
   \<and> py_get body_service_error (u ''result'') JNull = Inr JNull
   \<and> fst (recognize_endpoint (example_env None (reply_with 200 (u ''OK'') (Inr body_service_error)))
        example_request) =
       (JDict [(u ''status'', JStr (u ''fail'')),
               (u ''message'', JStr (SERVICE_ERROR_OPEN @ u ''900'' @ SERVICE_ERROR_CLOSE
                  @ u ''Wrong API token''))], 200)
   \<and> SERVICE_ERROR_OPEN @ u ''900'' @ SERVICE_ERROR_CLOSE @ u ''Wrong API token'' \<noteq> MSG_NO_MATCH"
proof -
  let ?ev = "example_env None (reply_with 200 (u ''OK'') (Inr body_service_error))"
  have a: "audd_returns ?ev example_request body_service_error"
    by (rule example_audd_returns)
  have h: "handle_result ?ev body_service_error =
             (Inr (fail_payload (SERVICE_ERROR_OPEN @ u ''900'' @ SERVICE_ERROR_CLOSE
                @ u ''Wrong API token''), 200), [])"
    by (simp add: body_service_error_def handle_result_def service_error_response_def
          try_bind_def str_int_900)
       (simp add: u_def)
  have n: "py_get body_service_error (u ''result'') JNull = Inr JNull"
    by (simp add: body_service_error_def u_def)
  have m: "SERVICE_ERROR_OPEN @ u ''900'' @ SERVICE_ERROR_CLOSE @ u ''Wrong API token'' \<noteq> MSG_NO_MATCH"
    by (simp add: SERVICE_ERROR_OPEN_def MSG_NO_MATCH_def)
  show ?thesis
    using a n m recognize_endpoint_after_decode [OF a] h
    by (auto simp: fail_payload_def)
qed

subsection \<open>Malformed link entries\<close>

text \<open>
  C9. When the match record (the truthy \<open>result\<close> object of a body without the error marker)
  has a truthy entry for one of the four platforms under which the nested keys of lines 135
  to 141 cannot be read (\<open>external_urls\<close> and \<open>spotify\<close> below \<open>spotify\<close>, \<open>url\<close> below
  \<open>youtube\<close> and \<open>apple_music\<close>, \<open>link\<close> below \<open>deezer\<close>), link extraction raises, and the
  whole request is answered with HTTP 500 and \<open>status\<close> \<open>error\<close>, never with a success payload
  that omits the link. The message carries the text of the exception that reached the
  handler of line 156.
\<close>

theorem malformed_link_entry_500:
  assumes "audd_returns ev request result"
    and "match_record result (JDict r)"
    and "(field, path, name) \<in> set PLATFORM_LINKS"
    and "py_truthy (get_or_null r field)"
    and "subscript_path (get_or_null r field) path = Inl e"
  shows "(\<exists>e'. extract_links (JDict r) = Inl e') \<and>
         (\<exists>e'. fst (recognize_endpoint ev request) =
            (JDict [(u ''status'', JStr (u ''error'')),
                    (u ''message'', JStr (BACKEND_ERROR_PREFIX @ str_exn e'))], 500))"
proof -
  let ?t = "get_or_null r (u ''title'')" and ?a = "get_or_null r (u ''artist'')"
  obtain e1 where e1: "extract_links (JDict r) = Inl e1"
    using extract_links_raises [OF assms(3,4,5)] by blast
  have nh1: "\<not> is_HTTPError e1" using extract_links_not_http [OF e1] .
  obtain e2 where e2: "fst (handle_result ev result) = Inl e2" and nh2: "\<not> is_HTTPError e2"
  proof (cases "fst (get_song_info_from_gemini ev ?t ?a)")
    case (Inl g)
    then have "\<not> is_HTTPError g" by (rule gemini_raises_not_http)
    with Inl that [of g] show ?thesis
      by (simp add: handle_result_match [OF assms(2)] try_bind_def)
  next
    case (Inr g)
    with e1 nh1 that [of e1] show ?thesis
      by (simp add: handle_result_match [OF assms(2)] try_bind_def success_response_links_raise)
  qed
  from e2 nh2 recognize_endpoint_after_decode [OF assms(1)]
  have "fst (recognize_endpoint ev request) = (error_payload (BACKEND_ERROR_PREFIX @ str_exn e2), 500)"
    by (cases e2; cases "handle_result ev result") (auto simp: recognize_except_def)
  with e1 show ?thesis
    by (auto simp: error_payload_def)
qed

text \<open>The witness: a \<open>spotify\<close> entry \<open>{"id": "abc"}\<close>, without \<open>external_urls\<close>; the
  message carries the text of the \<open>KeyError\<close>.\<close>

theorem malformed_link_entry_500_witness:
  "audd_returns (example_env None (reply_with 200 (u ''OK'') (Inr (body_with_record record_bad_spotify))))
     example_request (body_with_record record_bad_spotify)
   \<and> match_record (body_with_record record_bad_spotify) (JDict record_bad_spotify)
   \<and> (u ''spotify'', [u ''external_urls'', u ''spotify''], u ''Spotify'') \<in> set PLATFORM_LINKS
   \<and> py_truthy (get_or_null record_bad_spotify (u ''spotify''))
   \<and> subscript_path (get_or_null record_bad_spotify (u ''spotify'')) [u ''external_urls'', u ''spotify'']
       = Inl (KeyError (quoted (u ''external_urls'')))
   \<and> extract_links (JDict record_bad_spotify) = Inl (KeyError (quoted (u ''external_urls'')))
   \<and> fst (recognize_endpoint
         (example_env None (reply_with 200 (u ''OK'') (Inr (body_with_record record_bad_spotify))))
         example_request) =
        (JDict [(u ''status'', JStr (u ''error'')),
                (u ''message'', JStr (BACKEND_ERROR_PREFIX @ quoted (u ''external_urls'')))], 500)"
proof -
  let ?ev = "example_env None (reply_with 200 (u ''OK'') (Inr (body_with_record record_bad_spotify)))"
  have a: "audd_returns ?ev example_request (body_with_record record_bad_spotify)"
    by (rule example_audd_returns)
  have m: "match_record (body_with_record record_bad_spotify) (JDict record_bad_spotify)"
    by (rule body_with_record_match) (simp add: record_bad_spotify_def)
  have p: "(u ''spotify'', [u ''external_urls'', u ''spotify''], u ''Spotify'') \<in> set PLATFORM_LINKS"
    by (simp add: PLATFORM_LINKS_def)
  have t: "py_truthy (get_or_null record_bad_spotify (u ''spotify''))"
    by (simp add: get_or_null_def record_bad_spotify_def u_def)
  have s: "subscript_path (get_or_null record_bad_spotify (u ''spotify''))
             [u ''external_urls'', u ''spotify''] = Inl (KeyError (quoted (u ''external_urls'')))"
    by (simp add: get_or_null_def record_bad_spotify_def try_bind_def u_def)
  have x: "extract_links (JDict record_bad_spotify) = Inl (KeyError (quoted (u ''external_urls'')))"
    by (simp add: extract_links_def add_link_dict try_bind_def get_or_null_def
          record_bad_spotify_def u_def)
  have g: "fst (get_song_info_from_gemini ?ev (get_or_null record_bad_spotify (u ''title''))
                  (get_or_null record_bad_spotify (u ''artist'')))
             = Inr (enrichment MSG_AI_NOT_STARTED MSG_AI_NOT_STARTED)"
    by (simp add: gemini_without_client example_env_def)
  have r: "fst (recognize_endpoint ?ev example_request) =
        (JDict [(u ''status'', JStr (u ''error'')),
                (u ''message'', JStr (BACKEND_ERROR_PREFIX @ quoted (u ''external_urls'')))], 500)"
    using recognize_endpoint_after_decode [OF a] g
    by (auto simp: handle_result_match [OF m] try_bind_def success_response_links_raise [OF x]
          recognize_except_def error_payload_def)
  from malformed_link_entry_500 [OF a m p t s]
  have "\<exists>e'. extract_links (JDict record_bad_spotify) = Inl e'" by blast
  then show ?thesis
    using a m p t s x r by simp
qed

subsection \<open>Missing enrichment keys\<close>

text \<open>
  C10. When the request reaches the success payload (a match record whose links are
  extracted without error) and the text-generation reply parses as a JSON object, the
  endpoint answers HTTP 200 with \<open>status\<close> \<open>success\<close>; a \<open>lyrics\<close> or \<open>artist_info\<close> key that
  the object lacks is replaced by its own fixed fallback string (lines 150 and 151), and a
  key it has is passed on. The two fallback strings are non-empty and distinct.
\<close>

theorem missing_enrichment_keys_fallback:
  assumes "audd_returns ev request result"
    and "match_record result (JDict r)"
    and "extract_links (JDict r) = Inr links"
    and "gemini_client ev = Some generate_content"
    and "generate_content (u ''gemini-2.5-flash'')
           (prompt (py_repr ev) (get_or_null r (u ''title'')) (get_or_null r (u ''artist'')))
           = GenReturns (Some text)"
    and "json_loads (cleaned_text text) = Inr (JDict g)"
  shows "answers_success ev request r links
           (case map_of g (u ''lyrics'') of None \<Rightarrow> JStr FALLBACK_LYRICS | Some v \<Rightarrow> v)
           (case map_of g (u ''artist_info'') of None \<Rightarrow> JStr FALLBACK_ARTIST_INFO | Some v \<Rightarrow> v)
         \<and> FALLBACK_LYRICS \<noteq> [] \<and> FALLBACK_ARTIST_INFO \<noteq> []
         \<and> FALLBACK_LYRICS \<noteq> FALLBACK_ARTIST_INFO"
proof -
  have "fst (get_song_info_from_gemini ev (get_or_null r (u ''title'')) (get_or_null r (u ''artist'')))
          = Inr (JDict g)"
    using assms(4,5,6) by (simp add: get_song_info_from_gemini_def gemini_try_def Let_def)
  then show ?thesis
    using endpoint_of_enrichment [OF assms(1,2,3)]
    by (simp add: FALLBACK_LYRICS_def FALLBACK_ARTIST_INFO_def)
qed

text \<open>The witness: the reply \<open>{}\<close>, which lacks both keys.\<close>

theorem missing_enrichment_keys_fallback_witness:
  "audd_returns
     (example_env (Some (client_returning (Some (u ''{}''))))
        (reply_with 200 (u ''OK'') (Inr (body_with_record record_plain))))
     example_request (body_with_record record_plain)
   \<and> match_record (body_with_record record_plain) (JDict record_plain)
   \<and> extract_links (JDict record_plain) = Inr []
   \<and> json_loads (cleaned_text (u ''{}'')) = Inr (JDict [])
   \<and> fst (recognize_endpoint
        (example_env (Some (client_returning (Some (u ''{}''))))
           (reply_with 200 (u ''OK'') (Inr (body_with_record record_plain))))
        example_request) =
       (JDict [(u ''status'', JStr (u ''success'')),
               (u ''title'', JStr (u ''Song'')),
               (u ''artist'', JStr (u ''Singer'')),
               (u ''album'', JStr (u ''Album'')),
               (u ''links'', JDict []),
               (u ''lyrics'', JStr FALLBACK_LYRICS),
               (u ''artist_info'', JStr FALLBACK_ARTIST_INFO)], 200)"
proof -
  let ?gc = "client_returning (Some (u ''{}''))"
  let ?ev = "example_env (Some ?gc) (reply_with 200 (u ''OK'') (Inr (body_with_record record_plain)))"
  have a: "audd_returns ?ev example_request (body_with_record record_plain)"
    by (rule example_audd_returns)
  have m: "match_record (body_with_record record_plain) (JDict record_plain)"
    by (rule body_with_record_match) (simp add: record_plain_def)
  have c: "gemini_client ?ev = Some ?gc" by (simp add: example_env_def)
  have g: "?gc (u ''gemini-2.5-flash'')
             (prompt (py_repr ?ev) (get_or_null record_plain (u ''title''))
                (get_or_null record_plain (u ''artist''))) = GenReturns (Some (u ''{}''))"
    by (simp add: client_returning_def)
  have "answers_success ?ev example_request record_plain []
           (case map_of [] (u ''lyrics'') of None \<Rightarrow> JStr FALLBACK_LYRICS | Some v \<Rightarrow> v)
           (case map_of [] (u ''artist_info'') of None \<Rightarrow> JStr FALLBACK_ARTIST_INFO | Some v \<Rightarrow> v)"
    using missing_enrichment_keys_fallback [OF a m extract_links_plain c g loads_empty_object]
    by simp
  then show ?thesis
    using a m extract_links_plain loads_empty_object
    by (simp add: answers_success_def get_or_null_def record_plain_def u_def)
qed

subsection \<open>Platform links\<close>




subsection \<open>Enrichment failures\<close>

text \<open>
  C1. The property: for a request with a successful fingerprint match, every failure of the
  enrichment path ends in placeholder strings for \<open>lyrics\<close> and \<open>artist_info\<close> and in HTTP
  200 with \<open>status\<close> \<open>success\<close>, never in a request-level error. The handlers of lines 69
  to 77 are written to that end, but the code does not do it: when the model call raises
  an exception that is not an \<open>APIError\<close> (here a connection failure), matching the clause
  of line 72 raises \<open>UnboundLocalError\<close>, because \<open>import json\<close> at line 63 has not run; the
  handler of line 75 is never tried, the exception leaves \<open>get_song_info_from_gemini\<close>, and
  the request is answered with HTTP 500 and \<open>status\<close> \<open>error\<close>. The theorem evaluates the
  endpoint at such a request: a match without links, a client that raises.
\<close>

theorem enrichment_exception_answered_500:
  "audd_returns
     (example_env (Some (client_raising (OtherException (u ''Connection reset by peer''))))
        (reply_with 200 (u ''OK'') (Inr (body_with_record record_plain))))
     example_request (body_with_record record_plain)
   \<and> match_record (body_with_record record_plain) (JDict record_plain)
   \<and> extract_links (JDict record_plain) = Inr []
   \<and> fst (recognize_endpoint
        (example_env (Some (client_raising (OtherException (u ''Connection reset by peer''))))
           (reply_with 200 (u ''OK'') (Inr (body_with_record record_plain))))
        example_request) =
       (JDict [(u ''status'', JStr (u ''error'')),
               (u ''message'', JStr (BACKEND_ERROR_PREFIX @ UNBOUND_JSON))], 500)"
proof -
  let ?post = "reply_with 200 (u ''OK'') (Inr (body_with_record record_plain))"
  let ?gc = "client_raising (OtherException (u ''Connection reset by peer''))"
  let ?ev = "example_env (Some ?gc) ?post"
  let ?t = "get_or_null record_plain (u ''title'')" and ?a = "get_or_null record_plain (u ''artist'')"
  have m: "match_record (body_with_record record_plain) (JDict record_plain)"
    by (rule body_with_record_match) (simp add: record_plain_def)
  have a: "audd_returns ?ev example_request (body_with_record record_plain)"
    by (rule example_audd_returns)
  have "fst (get_song_info_from_gemini ?ev ?t ?a) = Inl (UnboundLocalError UNBOUND_JSON)"
    by (rule gemini_other_exception_escapes [of _ ?gc _ _ "OtherException (u ''Connection reset by peer'')"])
       (simp_all add: example_env_def client_raising_def)
  then have r: "fst (recognize_endpoint ?ev example_request) =
       (JDict [(u ''status'', JStr (u ''error'')),
               (u ''message'', JStr (BACKEND_ERROR_PREFIX @ UNBOUND_JSON))], 500)"
    using endpoint_of_escaped_enrichment [OF a m] by (simp add: error_payload_def)
  show ?thesis
    using a m extract_links_plain r by simp
qed

end
